theory Spec2Isabelle
  imports Complex_Main
begin

section \<open>Data model\<close>

text \<open>
  The two aggregates of the repository, \<open>models/User.js\<close> and \<open>models/Withdrawal.js\<close>,
  as records. Conventions of the embedding:
  \<^item> a JavaScript Number is an exact rational (\<open>rat\<close>); the rounding error of IEEE
    doubles is not modelled, and \<open>Math.round x\<close> is \<open>\<lfloor>x + 1/2\<rfloor>\<close>;
  \<^item> a string is a list of code units below 256;
  \<^item> document ids are natural numbers; the \<open>createdAt\<close> order of the withdrawals is
    their order in the list of the store (oldest first), so that
    \<open>findOne(...).sort({createdAt: -1})\<close> is the last withdrawal of the user in the list;
  \<^item> the time stamps stored in notifications, pin records and payments
    (\<open>createdAt\<close>, \<open>setAt\<close>) are left out: no handler reads them;
  \<^item> \<open>doc.save()\<close> writes the in-memory document back under its id;
  \<^item> the fire-and-forget \<open>sendAdminEmail\<close> has no effect on the store and is left
    out;
  \<^item> a request field that is missing is the empty string, which the handlers' tests
    (\<open>!x\<close>, \<open>x || y\<close>) treat like \<open>undefined\<close>.
\<close>

record notification =
  ntext :: string
  nread :: bool

record pin_record =
  pin :: string
  isSet :: bool
  discoveredFromNotification :: bool

record saved_file =
  filename :: string
  originalname :: string
  url :: string
  public_id :: string
  mimetype :: "string option"
  fsize :: "nat option"

record card =
  giftCard :: string
  cardPin :: string
  cardFile :: "saved_file option"

record payment_submission =
  pmethod :: string
  pstage :: string
  pamount :: rat
  pdetails :: "(string \<times> string) list"
  pcards :: "card list"
  pstatus :: string
  pwithdrawal :: "nat option"

type_synonym details = "(string \<times> string) list"

record user =
  username :: string
  email :: string
  country :: string
  role :: string
  balance :: rat
  timerActive :: bool
  timerEnds :: "nat option"
  notifications :: "notification list"
  activationPins :: "string \<rightharpoonup> pin_record"
  activationStatus :: "string \<rightharpoonup> bool"
  payments :: "payment_submission list"

record withdrawal =
  wid :: nat
  owner :: nat
  amount :: rat
  wmethod :: string
  wdetails :: details
  status :: string
  stage :: string
  wpayments :: "payment_submission list"

record state =
  users :: "nat \<rightharpoonup> user"
  withdrawals :: "withdrawal list"

datatype error =
    UserNotFound
  | WithdrawalNotFound
  | Forbidden
  | InsufficientBalance
  | TimerInactive
  | ValidationFailed string
  | NoPinSet
  | IncorrectPin
  | Unauthorized
  | ServerError

datatype response =
    PreviewExisting nat rat string details string string
  | PreviewCreated nat rat string details
  | ProceedRecorded
  | ProceedExisting nat string string rat
  | ProceedDone nat string string rat
  | Submitted
  | PaymentSubmitted
  | PinConfirmed "string option" rat
  | WithdrawalApproved
  | PinSet
  | NotificationSent
  | DashboardView rat bool "nat option" "notification list"

section \<open>Store access\<close>

definition saveUser :: "state \<Rightarrow> nat \<Rightarrow> user \<Rightarrow> state" where
  "saveUser st uid u = st\<lparr>users := (users st)(uid \<mapsto> u)\<rparr>"

definition findWithdrawal :: "withdrawal list \<Rightarrow> nat \<Rightarrow> withdrawal option" where
  "findWithdrawal ws i = find (\<lambda>w. wid w = i) ws"

definition saveWithdrawal :: "withdrawal list \<Rightarrow> withdrawal \<Rightarrow> withdrawal list" where
  "saveWithdrawal ws w = map (\<lambda>x. if wid x = wid w then w else x) ws"

text \<open>\<open>Withdrawal.findOne({ user: id }).sort({ createdAt: -1 })\<close>\<close>

definition latestWithdrawal :: "withdrawal list \<Rightarrow> nat \<Rightarrow> withdrawal option" where
  "latestWithdrawal ws uid =
     (case filter (\<lambda>w. owner w = uid) ws of
        [] \<Rightarrow> None
      | x # xs \<Rightarrow> Some (last (x # xs)))"

text \<open>The test \<open>!['approved', 'rejected'].includes(latest.status) && latest.stage !== 'access'\<close>.\<close>

definition inProgress :: "withdrawal \<Rightarrow> bool" where
  "inProgress w = (status w \<notin> set [''approved'', ''rejected''] \<and> stage w \<noteq> ''access'')"

section \<open>Stage sequence and fees\<close>

definition stages :: "string list" where
  "stages = [''activation'', ''tax'', ''insurance'', ''verification'', ''security'', ''access'']"

fun indexOfFrom :: "nat \<Rightarrow> 'a list \<Rightarrow> 'a \<Rightarrow> int" where
  "indexOfFrom i [] x = - 1"
| "indexOfFrom i (y # ys) x = (if y = x then int i else indexOfFrom (Suc i) ys x)"

definition indexOf :: "'a list \<Rightarrow> 'a \<Rightarrow> int" where
  "indexOf xs x = indexOfFrom 0 xs x"

text \<open>
  \<open>const idx = stages.indexOf(stage);
  if (idx >= 0 && idx < stages.length - 1) nextStage = stages[idx + 1];\<close>
\<close>

definition nextStageOf :: "string \<Rightarrow> string option" where
  "nextStageOf s =
     (let idx = indexOf stages s in
      if 0 \<le> idx \<and> idx < int (length stages) - 1 then Some (stages ! nat (idx + 1)) else None)"

definition mathRound :: "rat \<Rightarrow> int" where
  "mathRound x = \<lfloor>x + 1 / 2\<rfloor>"

text \<open>\<open>Math.round((Number(user.balance || 0) * 0.01) * 100) / 100\<close>\<close>

definition taxAmount :: "rat \<Rightarrow> rat" where
  "taxAmount b = of_int (mathRound ((b * (1 / 100)) * 100)) / 100"

definition stageAmount :: "string option \<Rightarrow> rat \<Rightarrow> rat" where
  "stageAmount nextStage b =
     (if nextStage = Some ''tax'' then taxAmount b
      else if nextStage = Some ''insurance'' then 500
      else if nextStage = Some ''verification'' then 1000
      else if nextStage = Some ''security'' then 2000
      else 0)"

section \<open>The notification pattern of confirmStagePin\<close>

text \<open>
  \<open>new RegExp(`\\b${stage}\\b[^\\d]{0,25}(?:pin|code|is)[:\\s\\-]*?(\\d{4})`, 'i')\<close>.
  The stage name is spliced into the pattern text unescaped. Where it holds no
  character of the pattern syntax, the pattern reads it literally and the matcher below
  is the pattern's meaning; for any other stage text the pattern is whatever the
  JavaScript engine makes of it, which the handlers take as the parameter
  \<open>regex_engine\<close>: \<open>None\<close> when the constructor throws a SyntaxError, otherwise the
  function from a text to \<open>m[1]\<close> where \<open>m && m[1]\<close> holds.
\<close>

type_synonym regex_engine = "string \<Rightarrow> (string \<Rightarrow> string option) option"

definition syntaxChars :: "char list" where
  "syntaxChars = [CHR 0x5C, CHR ''^'', CHR ''$'', CHR ''.'', CHR ''|'', CHR ''?'', CHR ''*'',
     CHR ''+'', CHR ''('', CHR '')'', CHR ''['', CHR '']'', CHR ''{'', CHR ''}'']"

definition plainStage :: "string \<Rightarrow> bool" where
  "plainStage s = list_all (\<lambda>c. c \<notin> set syntaxChars) s"

definition isDigit :: "char \<Rightarrow> bool" where
  "isDigit c = (c \<in> set ''0123456789'')"

definition isWordChar :: "char \<Rightarrow> bool" where
  "isWordChar c =
     (c \<in> set ''abcdefghijklmnopqrstuvwxyzABCDEFGHIJKLMNOPQRSTUVWXYZ0123456789_'')"

text \<open>\<open>[:\s\-]\<close>: colon, hyphen, and the white space below code unit 256.\<close>

definition isSepChar :: "char \<Rightarrow> bool" where
  "isSepChar c = (c \<in> set [CHR '':'', CHR ''-'', CHR '' '', CHR 0x09, CHR 0x0A, CHR 0x0B,
     CHR 0x0C, CHR 0x0D, CHR 0xA0])"

text \<open>Case folding of the flag \<open>i\<close>: the upper-case form, for code units below 256.\<close>

definition canon :: "char \<Rightarrow> char" where
  "canon c =
     (let n = (of_char c :: nat) in
      if (97 \<le> n \<and> n \<le> 122) \<or> (224 \<le> n \<and> n \<le> 254 \<and> n \<noteq> 247)
      then char_of (n - 32) else c)"

fun prefixCI :: "string \<Rightarrow> string \<Rightarrow> string option" where
  "prefixCI [] s = Some s"
| "prefixCI (p # ps) [] = None"
| "prefixCI (p # ps) (c # cs) = (if canon p = canon c then prefixCI ps cs else None)"

definition fourDigits :: "string \<Rightarrow> string option" where
  "fourDigits s = (if 4 \<le> length s \<and> list_all isDigit (take 4 s) then Some (take 4 s) else None)"

definition orElse :: "'a option \<Rightarrow> 'a option \<Rightarrow> 'a option" where
  "orElse a b = (case a of Some x \<Rightarrow> Some x | None \<Rightarrow> b)"

text \<open>\<open>[:\s\-]*?(\d{4})\<close>, the lazy star: the digits are tried before one more separator.\<close>

fun sepsThenDigits :: "string \<Rightarrow> string option" where
  "sepsThenDigits [] = None"
| "sepsThenDigits (c # cs) =
     orElse (fourDigits (c # cs)) (if isSepChar c then sepsThenDigits cs else None)"

text \<open>\<open>(?:pin|code|is)\<close> and what follows it, the alternatives in their order.\<close>

definition keywordThenDigits :: "string \<Rightarrow> string option" where
  "keywordThenDigits s =
     orElse (Option.bind (prefixCI ''pin'' s) sepsThenDigits)
       (orElse (Option.bind (prefixCI ''code'' s) sepsThenDigits)
          (Option.bind (prefixCI ''is'' s) sepsThenDigits))"

text \<open>\<open>[^\d]{0,25}\<close>, greedy: one more character is tried before the keyword.\<close>

fun gapThenKeyword :: "nat \<Rightarrow> string \<Rightarrow> string option" where
  "gapThenKeyword 0 s = keywordThenDigits s"
| "gapThenKeyword (Suc n) [] = keywordThenDigits []"
| "gapThenKeyword (Suc n) (c # cs) =
     orElse (if isDigit c then None else gapThenKeyword n cs) (keywordThenDigits (c # cs))"

definition headOpt :: "'a list \<Rightarrow> 'a option" where
  "headOpt s = (case s of [] \<Rightarrow> None | c # cs \<Rightarrow> Some c)"

text \<open>\<open>\b\<close> between the character before a position and the one after it.\<close>

definition wordBoundary :: "char option \<Rightarrow> char option \<Rightarrow> bool" where
  "wordBoundary a b =
     ((case a of None \<Rightarrow> False | Some c \<Rightarrow> isWordChar c)
      \<noteq> (case b of None \<Rightarrow> False | Some c \<Rightarrow> isWordChar c))"

text \<open>
  The whole pattern at one start position: \<open>prev\<close> is the character before it.
  After \<open>prefixCI stage s\<close> succeeds the text holds at least \<open>length stage\<close>
  characters, so \<open>s ! (length stage - 1)\<close> is in range.
\<close>

definition matchHere :: "string \<Rightarrow> char option \<Rightarrow> string \<Rightarrow> string option" where
  "matchHere stg prev s =
     (if wordBoundary prev (headOpt s) then
        (case prefixCI stg s of
           None \<Rightarrow> None
         | Some rest \<Rightarrow>
             if wordBoundary (if stg = [] then prev else Some (s ! (length stg - 1))) (headOpt rest)
             then gapThenKeyword 25 rest else None)
      else None)"

text \<open>\<open>regex.exec(text)\<close>: the start positions from the left.\<close>

fun searchFrom :: "string \<Rightarrow> char option \<Rightarrow> string \<Rightarrow> string option" where
  "searchFrom stg prev [] = matchHere stg prev []"
| "searchFrom stg prev (c # cs) =
     orElse (matchHere stg prev (c # cs)) (searchFrom stg (Some c) cs)"

definition plainExec :: "string \<Rightarrow> string \<Rightarrow> string option" where
  "plainExec stg txt = searchFrom stg None txt"

definition compileStageRegex :: "regex_engine \<Rightarrow> string \<Rightarrow> (string \<Rightarrow> string option) option" where
  "compileStageRegex eng stg = (if plainStage stg then Some (plainExec stg) else eng stg)"

text \<open>
  \<open>for (let n of notifList) { if (!n || !n.text) continue;
  const m = regex.exec(n.text); if (m && m[1]) { foundPin = m[1]; break; } }\<close>
\<close>

fun scanNotifications :: "(string \<Rightarrow> string option) \<Rightarrow> notification list \<Rightarrow> string option" where
  "scanNotifications rx [] = None"
| "scanNotifications rx (n # ns) =
     (if ntext n = [] then scanNotifications rx ns
      else (case rx (ntext n) of
              Some d \<Rightarrow> Some d
            | None \<Rightarrow> scanNotifications rx ns))"

section \<open>confirmStagePin\<close>

record confirm_request =
  withdrawalId :: nat
  cstage :: string
  submittedPin :: string

datatype pin_resolution =
    PinAlreadySet pin_record
  | PinRecovered string
  | NoPinFound
  | RegexSyntaxError

definition recoverPin :: "regex_engine \<Rightarrow> user \<Rightarrow> string \<Rightarrow> pin_resolution" where
  "recoverPin eng u stg =
     (case compileStageRegex eng stg of
        None \<Rightarrow> RegexSyntaxError
      | Some rx \<Rightarrow>
          (case scanNotifications rx (rev (notifications u)) of
             Some d \<Rightarrow> PinRecovered d
           | None \<Rightarrow> NoPinFound))"

text \<open>\<open>let stageObj = activationPins[stage]; if (!stageObj || !stageObj.set) { ... }\<close>\<close>

definition resolveStagePin :: "regex_engine \<Rightarrow> user \<Rightarrow> string \<Rightarrow> pin_resolution" where
  "resolveStagePin eng u stg =
     (case activationPins u stg of
        None \<Rightarrow> recoverPin eng u stg
      | Some obj \<Rightarrow> if isSet obj then PinAlreadySet obj else recoverPin eng u stg)"

definition acceptedNotification :: "string \<Rightarrow> notification" where
  "acceptedNotification stg =
     \<lparr>ntext = ''Your '' @ stg @ '' activation code was accepted.'', nread = False\<rparr>"

definition advanceWithdrawal :: "withdrawal \<Rightarrow> string option \<Rightarrow> withdrawal" where
  "advanceWithdrawal w nextStage =
     (case nextStage of
        None \<Rightarrow> w
      | Some ns \<Rightarrow> w\<lparr>stage := ns,
                     status := (if ns = ''access'' then ''ready_for_payout'' else status w)\<rparr>)"

text \<open>The handler from the comparison of the pins on (lines 380 to 419).\<close>

definition checkAndAdvance ::
    "state \<Rightarrow> nat \<Rightarrow> user \<Rightarrow> pin_record \<Rightarrow> confirm_request \<Rightarrow> (error + response) \<times> state" where
  "checkAndAdvance st uid u stageObj req =
     (if pin stageObj \<noteq> submittedPin req then (Inl IncorrectPin, st)
      else
        let u2 = u\<lparr>activationStatus := (activationStatus u)(cstage req \<mapsto> True),
                   notifications := notifications u @ [acceptedNotification (cstage req)]\<rparr>;
            st2 = saveUser st uid u2;
            nextStage = nextStageOf (cstage req);
            amt = stageAmount nextStage (balance u2)
        in (case latestWithdrawal (withdrawals st2) uid of
              Some w \<Rightarrow>
                (Inr (PinConfirmed nextStage amt),
                 st2\<lparr>withdrawals := saveWithdrawal (withdrawals st2) (advanceWithdrawal w nextStage)\<rparr>)
            | None \<Rightarrow> (Inr (PinConfirmed nextStage amt), st2)))"

definition confirmStagePin ::
    "regex_engine \<Rightarrow> state \<Rightarrow> nat \<Rightarrow> confirm_request \<Rightarrow> (error + response) \<times> state" where
  "confirmStagePin eng st uid req =
     (case users st uid of
        None \<Rightarrow> (Inl UserNotFound, st)
      | Some u \<Rightarrow>
          (case resolveStagePin eng u (cstage req) of
             RegexSyntaxError \<Rightarrow> (Inl ServerError, st)
           | NoPinFound \<Rightarrow> (Inl NoPinSet, st)
           | PinAlreadySet obj \<Rightarrow> checkAndAdvance st uid u obj req
           | PinRecovered d \<Rightarrow>
               let obj = \<lparr>pin = d, isSet = True, discoveredFromNotification = True\<rparr>;
                   u1 = u\<lparr>activationPins := (activationPins u)(cstage req \<mapsto> obj)\<rparr>
               in checkAndAdvance (saveUser st uid u1) uid u1 obj req))"

section \<open>Create preview\<close>

definition freshId :: "withdrawal list \<Rightarrow> nat" where
  "freshId ws = Suc (foldr max (map wid ws) 0)"

text \<open>Lines 22 to 58 of the withdrawal controller, shared word for word by
  \<open>withdrawRequest\<close> of the auth controller (lines 311 to 329).\<close>

definition resumeOrCreate :: "state \<Rightarrow> nat \<Rightarrow> user \<Rightarrow> string \<Rightarrow> details \<Rightarrow> (error + response) \<times> state" where
  "resumeOrCreate st uid u method dets =
     (let create =
            (let w = \<lparr>wid = freshId (withdrawals st), owner = uid, amount = balance u,
                      wmethod = method, wdetails = dets, status = ''preview'',
                      stage = ''activation'', wpayments = []\<rparr>
             in (Inr (PreviewCreated (wid w) (amount w) (wmethod w) (wdetails w)),
                 st\<lparr>withdrawals := withdrawals st @ [w]\<rparr>))
      in (case latestWithdrawal (withdrawals st) uid of
            None \<Rightarrow> create
          | Some latest \<Rightarrow>
              if inProgress latest
              then (Inr (PreviewExisting (wid latest) (amount latest) (wmethod latest)
                           (wdetails latest) (stage latest) (status latest)), st)
              else create))"

definition createPreview :: "state \<Rightarrow> nat \<Rightarrow> string \<Rightarrow> details \<Rightarrow> (error + response) \<times> state" where
  "createPreview st uid method dets =
     (case users st uid of
        None \<Rightarrow> (Inl UserNotFound, st)
      | Some u \<Rightarrow>
          if balance u < 1 then (Inl InsufficientBalance, st)
          else if \<not> timerActive u then (Inl TimerInactive, st)
          else resumeOrCreate st uid u method dets)"

subsection \<open>withdrawRequest and its checks of the method and the details\<close>

definition lowerChar :: "char \<Rightarrow> char" where
  "lowerChar c =
     (let n = (of_char c :: nat) in
      if (65 \<le> n \<and> n \<le> 90) \<or> (192 \<le> n \<and> n \<le> 222 \<and> n \<noteq> 215)
      then char_of (n + 32) else c)"

definition toLowerCase :: "string \<Rightarrow> string" where
  "toLowerCase s = map lowerChar s"

fun includesStr :: "string \<Rightarrow> string \<Rightarrow> bool" where
  "includesStr [] sub = (sub = [])"
| "includesStr (c # cs) sub = (take (length sub) (c # cs) = sub \<or> includesStr cs sub)"

definition isUSA :: "string \<Rightarrow> bool" where
  "isUSA cty =
     (if cty = [] then False
      else (let c = toLowerCase cty in
            c = ''united states'' \<or> c = ''united states of america'' \<or> c = ''usa'' \<or> c = ''us''))"

definition isCanada :: "string \<Rightarrow> bool" where
  "isCanada cty = (if cty = [] then False else includesStr (toLowerCase cty) ''canada'')"

definition field :: "details \<Rightarrow> string \<Rightarrow> string" where
  "field d k = (case map_of d k of None \<Rightarrow> [] | Some v \<Rightarrow> v)"

text \<open>\<open>/^\d{n}$/.test(String(x))\<close>\<close>

definition digitsExactly :: "nat \<Rightarrow> string \<Rightarrow> bool" where
  "digitsExactly n s = (length s = n \<and> list_all isDigit s)"

definition checkWithdrawRequest :: "string \<Rightarrow> string \<Rightarrow> details \<Rightarrow> string option" where
  "checkWithdrawRequest cty method d =
     (if \<not> isUSA cty \<and> \<not> isCanada cty \<and> method \<noteq> ''crypto''
      then Some ''Only cryptocurrency withdrawals are available for your country.''
      else if method = ''crypto'' then
        (if field d ''crypto'' = [] \<or> field d ''walletAddress'' = []
         then Some ''Crypto type and wallet address are required for cryptocurrency withdrawals.''
         else None)
      else if method = ''bank'' then
        (if isUSA cty then
           (if field d ''bankName'' = [] \<or> field d ''bankAddress'' = []
               \<or> field d ''routingNumber'' = [] \<or> field d ''beneficiaryName'' = []
               \<or> field d ''accountNumber'' = [] \<or> field d ''accountType'' = []
               \<or> field d ''beneficiaryAddress'' = []
            then Some ''Missing required USA bank transfer fields.''
            else if \<not> digitsExactly 9 (field d ''routingNumber'')
            then Some ''Routing Number must be 9 digits.''
            else if toLowerCase (field d ''accountType'') \<notin> set [''checking'', ''savings'']
            then Some ''Account type must be checking or savings.''
            else None)
         else if isCanada cty then
           (if field d ''transitNumber'' = [] \<or> field d ''institutionNumber'' = []
               \<or> field d ''accountNumber'' = [] \<or> field d ''beneficiaryName'' = []
            then Some ''Missing required Canada bank transfer fields.''
            else if \<not> digitsExactly 5 (field d ''transitNumber'')
            then Some ''Transit Number must be 5 digits.''
            else if \<not> digitsExactly 3 (field d ''institutionNumber'')
            then Some ''Institution Number must be 3 digits.''
            else None)
         else Some ''Bank transfers not supported for your country.'')
      else if method = ''stripe'' then
        (if field d ''email'' = [] then Some ''Email required for Stripe withdrawals.'' else None)
      else Some ''Invalid withdrawal method.'')"

definition withdrawRequest :: "state \<Rightarrow> nat \<Rightarrow> string \<Rightarrow> details \<Rightarrow> (error + response) \<times> state" where
  "withdrawRequest st uid method dets =
     (case users st uid of
        None \<Rightarrow> (Inl UserNotFound, st)
      | Some u \<Rightarrow>
          if balance u < 1 then (Inl InsufficientBalance, st)
          else if \<not> timerActive u then (Inl TimerInactive, st)
          else (case checkWithdrawRequest (country u) method dets of
                  Some msg \<Rightarrow> (Inl (ValidationFailed msg), st)
                | None \<Rightarrow> resumeOrCreate st uid u method dets))"

section \<open>Proceed\<close>

text \<open>
  \<open>proceedWithdraw\<close> of the withdrawal controller (route \<open>/api/withdraw/:id/proceed\<close>).
  \<open>findById(id).populate('user')\<close> leaves \<open>withdrawal.user\<close> null when the user
  document is gone, and \<open>withdrawal.user._id\<close> then throws into the handler's catch.
\<close>

definition proceedWithdraw :: "state \<Rightarrow> nat \<Rightarrow> nat \<Rightarrow> (error + response) \<times> state" where
  "proceedWithdraw st uid i =
     (case findWithdrawal (withdrawals st) i of
        None \<Rightarrow> (Inl WithdrawalNotFound, st)
      | Some w \<Rightarrow>
          (case users st (owner w) of
             None \<Rightarrow> (Inl ServerError, st)
           | Some wu \<Rightarrow>
               if owner w \<noteq> uid then (Inl Forbidden, st)
               else (Inr ProceedRecorded,
                     st\<lparr>withdrawals :=
                          saveWithdrawal (withdrawals st) (w\<lparr>status := ''pending_activation''\<rparr>)\<rparr>)))"

text \<open>
  \<open>withdrawProceed\<close> of the auth controller (route \<open>/api/auth/withdraw-proceed/:id\<close>).
  \<open>user.balance\<close> is read only where the stage is tax; a missing user throws there.
\<close>

definition proceedAmount :: "state \<Rightarrow> nat \<Rightarrow> withdrawal \<Rightarrow> rat option" where
  "proceedAmount st uid w =
     (if stage w = ''tax''
      then (case users st uid of None \<Rightarrow> None | Some u \<Rightarrow> Some (taxAmount (balance u)))
      else Some 0)"

definition withdrawProceed :: "state \<Rightarrow> nat \<Rightarrow> nat \<Rightarrow> (error + response) \<times> state" where
  "withdrawProceed st uid i =
     (let onRequested =
            (case findWithdrawal (withdrawals st) i of
               None \<Rightarrow> (Inl WithdrawalNotFound, st)
             | Some w \<Rightarrow>
                 if owner w \<noteq> uid then (Inl Forbidden, st)
                 else
                   (let w' = w\<lparr>status := ''pending_activation''\<rparr>;
                        st' = st\<lparr>withdrawals := saveWithdrawal (withdrawals st) w'\<rparr>
                    in (case proceedAmount st' uid w' of
                          None \<Rightarrow> (Inl ServerError, st')
                        | Some a \<Rightarrow> (Inr (ProceedDone (wid w') (stage w') (status w') a), st'))))
      in (case latestWithdrawal (withdrawals st) uid of
            None \<Rightarrow> onRequested
          | Some latest \<Rightarrow>
              if wid latest \<noteq> i \<and> inProgress latest
              then (case proceedAmount st uid latest of
                      None \<Rightarrow> (Inl ServerError, st)
                    | Some a \<Rightarrow>
                        (Inr (ProceedExisting (wid latest) (stage latest) (status latest) a), st))
              else onRequested))"

section \<open>Payment ingestion\<close>

record upfile =
  fieldname :: string
  uoriginalname :: string
  umimetype :: string
  usize :: nat

record cloud_result =
  secure_url :: string
  cpublic_id :: string

text \<open>\<open>uploadToCloudinary(file, 'contest-giftcards')\<close>: \<open>None\<close> is the rejected promise.\<close>

type_synonym uploader = "upfile \<Rightarrow> cloud_result option"

definition orDefault :: "string \<Rightarrow> string \<Rightarrow> string" where
  "orDefault a b = (if a \<noteq> [] then a else b)"

fun showNat :: "nat \<Rightarrow> string" where
  "showNat n =
     (if n < 10 then [''0123456789'' ! n]
      else showNat (n div 10) @ [''0123456789'' ! (n mod 10)])"

declare showNat.simps [simp del]

text \<open>\<open>filesByField[name]\<close> and its first element.\<close>

definition fileOfField :: "upfile list \<Rightarrow> string \<Rightarrow> upfile option" where
  "fileOfField files name = find (\<lambda>f. fieldname f = name) files"

fun firstFileOf :: "upfile list \<Rightarrow> string list \<Rightarrow> upfile option" where
  "firstFileOf files [] = None"
| "firstFileOf files (n # ns) =
     (case fileOfField files n of Some f \<Rightarrow> Some f | None \<Rightarrow> firstFileOf files ns)"

definition tryUpload :: "uploader \<Rightarrow> upfile option \<Rightarrow> (upfile \<times> cloud_result) option" where
  "tryUpload upload file =
     (case file of
        None \<Rightarrow> None
      | Some f \<Rightarrow> (case upload f of None \<Rightarrow> None | Some r \<Rightarrow> Some (f, r)))"

definition cardFileField :: "nat \<Rightarrow> string" where
  "cardFileField i = ''cards['' @ showNat i @ ''][file]''"

definition notifyAdmins :: "state \<Rightarrow> string \<Rightarrow> state" where
  "notifyAdmins st txt =
     st\<lparr>users := (\<lambda>k. map_option
            (\<lambda>a. if role a = ''admin''
                  then a\<lparr>notifications := notifications a @ [\<lparr>ntext = txt, nread = False\<rparr>]\<rparr>
                  else a)
            (users st k))\<rparr>"

definition submittedText :: "string \<Rightarrow> string \<Rightarrow> nat \<Rightarrow> string" where
  "submittedText uname stg n =
     ''User '' @ uname @ '' submitted '' @ stg @ '' payment with '' @ showNat n @ '' gift card(s).''"

subsection \<open>submitStagePayment (withdrawal controller)\<close>

record card_data =
  cdGiftCard :: string
  cdPin :: string

text \<open>
  \<open>cardsCount\<close> is \<open>Number(cardsCount || 0)\<close>, taken as an integer (0 where the field
  is missing or not a number); \<open>spCards i\<close> is \<open>parsedBody.cards && parsedBody.cards[i]\<close>.
\<close>

record stage_payment_request =
  spWithdrawalId :: nat
  spStage :: string
  spAmount :: rat
  cardsCount :: int
  spMethod :: string
  spCards :: "nat \<Rightarrow> card_data option"
  spGiftCard :: string
  spPin :: string
  spFiles :: "upfile list"

definition stageSavedFile :: "(upfile \<times> cloud_result) option \<Rightarrow> saved_file option" where
  "stageSavedFile r =
     (case r of
        None \<Rightarrow> None
      | Some (f, c) \<Rightarrow>
          Some \<lparr>filename = uoriginalname f, originalname = uoriginalname f, url = secure_url c,
                public_id = cpublic_id c, mimetype = Some (umimetype f), fsize = Some (usize f)\<rparr>)"

definition stageCard :: "uploader \<Rightarrow> upfile list \<Rightarrow> nat \<Rightarrow> card_data \<Rightarrow> card" where
  "stageCard upload files i cd =
     \<lparr>giftCard = orDefault (cdGiftCard cd) ''Steam'', cardPin = cdPin cd,
      cardFile = stageSavedFile (tryUpload upload (fileOfField files (cardFileField i)))\<rparr>"

text \<open>
  The loop \<open>for (let i = 0; i < count; i++)\<close> of lines 136 to 190. The second
  component records, for each pass, its index and whether it pushed a card (the two
  \<open>console.log\<close> lines of the loop body).
\<close>

function stageCardLoop ::
    "uploader \<Rightarrow> stage_payment_request \<Rightarrow> int \<Rightarrow> int \<Rightarrow> card list \<times> (nat \<times> bool) list
       \<Rightarrow> card list \<times> (nat \<times> bool) list" where
  "stageCardLoop upload req i count acc =
     (if i < count then
        (case spCards req (nat i) of
           Some cd \<Rightarrow>
             stageCardLoop upload req (i + 1) count
               (fst acc @ [stageCard upload (spFiles req) (nat i) cd], snd acc @ [(nat i, True)])
         | None \<Rightarrow>
             stageCardLoop upload req (i + 1) count (fst acc, snd acc @ [(nat i, False)]))
      else acc)"
  by pat_completeness auto
termination
  by (relation "measure (\<lambda>(upload, req, i, count, acc). nat (count - i))") auto

declare stageCardLoop.simps [simp del]

definition stageSingleCard :: "uploader \<Rightarrow> stage_payment_request \<Rightarrow> card" where
  "stageSingleCard upload req =
     (let first = (case spCards req 0 of None \<Rightarrow> \<lparr>cdGiftCard = [], cdPin = []\<rparr> | Some cd \<Rightarrow> cd)
      in \<lparr>giftCard = orDefault (cdGiftCard first) (orDefault (spGiftCard req) ''Steam''),
          cardPin = orDefault (cdPin first) (spPin req),
          cardFile = stageSavedFile (tryUpload upload
            (firstFileOf (spFiles req) [''file'', ''giftImage'', ''cardImage'', ''image'']))\<rparr>)"

definition stageCards :: "uploader \<Rightarrow> stage_payment_request \<Rightarrow> card list \<times> (nat \<times> bool) list" where
  "stageCards upload req =
     (if 0 < cardsCount req then stageCardLoop upload req 0 (cardsCount req) ([], [])
      else ([stageSingleCard upload req], []))"

definition submitStagePayment ::
    "uploader \<Rightarrow> state \<Rightarrow> nat \<Rightarrow> stage_payment_request \<Rightarrow> (error + response) \<times> state" where
  "submitStagePayment upload st uid req =
     (case findWithdrawal (withdrawals st) (spWithdrawalId req) of
        None \<Rightarrow> (Inl WithdrawalNotFound, st)
      | Some w \<Rightarrow>
          (case users st (owner w) of
             None \<Rightarrow> (Inl ServerError, st)
           | Some wu \<Rightarrow>
               if owner w \<noteq> uid then (Inl Forbidden, st)
               else
                 (let cards = fst (stageCards upload req);
                      paymentSubmission =
                        \<lparr>pmethod = orDefault (spMethod req) ''giftcard'', pstage = spStage req,
                         pamount = spAmount req, pdetails = [], pcards = cards,
                         pstatus = ''submitted'', pwithdrawal = None\<rparr>;
                      st1 = st\<lparr>withdrawals := saveWithdrawal (withdrawals st)
                               (w\<lparr>wpayments := wpayments w @ [paymentSubmission]\<rparr>)\<rparr>
                  in (case users st1 uid of
                        None \<Rightarrow> (Inl ServerError, st1)
                      | Some u \<Rightarrow>
                          (let st2 = saveUser st1 uid
                                 (u\<lparr>payments := payments u
                                       @ [paymentSubmission\<lparr>pwithdrawal := Some (wid w)\<rparr>]\<rparr>)
                           in (Inr Submitted,
                               notifyAdmins st2
                                 (submittedText (username u) (spStage req) (length cards))))))))"

subsection \<open>submitActivationPayment (payment controller)\<close>

text \<open>\<open>apBody\<close> is \<open>req.body\<close> read by key; \<open>apFile\<close> is \<open>req.file\<close>.\<close>

record activation_payment_request =
  apUserId :: "nat option"
  apMethod :: string
  apWithdrawalId :: "nat option"
  apStage :: string
  apAmount :: rat
  apCardsCount :: int
  apBody :: "string \<Rightarrow> string"
  apFile :: "upfile option"
  apFiles :: "upfile list"

text \<open>The test \<open>if (withdrawalId || stage)\<close> on a field that may be missing.\<close>

definition present :: "'a option \<Rightarrow> bool" where
  "present x = (case x of None \<Rightarrow> False | Some v \<Rightarrow> True)"

definition activationSavedFile :: "(upfile \<times> cloud_result) option \<Rightarrow> saved_file option" where
  "activationSavedFile r =
     (case r of
        None \<Rightarrow> None
      | Some (f, c) \<Rightarrow>
          Some \<lparr>filename = uoriginalname f, originalname = uoriginalname f, url = secure_url c,
                public_id = cpublic_id c, mimetype = None, fsize = None\<rparr>)"

definition activationCard :: "uploader \<Rightarrow> activation_payment_request \<Rightarrow> nat \<Rightarrow> card" where
  "activationCard upload req i =
     \<lparr>giftCard = orDefault (apBody req (''cards['' @ showNat i @ ''][giftCard]''))
                   (orDefault (apBody req (''cards['' @ showNat i @ ''][gift]'')) ''Steam''),
      cardPin = apBody req (''cards['' @ showNat i @ ''][pin]''),
      cardFile = activationSavedFile (tryUpload upload (fileOfField (apFiles req) (cardFileField i)))\<rparr>"

text \<open>The loop of lines 48 to 73: every pass pushes a card.\<close>

function activationCardLoop ::
    "uploader \<Rightarrow> activation_payment_request \<Rightarrow> int \<Rightarrow> int \<Rightarrow> card list \<Rightarrow> card list" where
  "activationCardLoop upload req i count cards =
     (if i < count
      then activationCardLoop upload req (i + 1) count (cards @ [activationCard upload req (nat i)])
      else cards)"
  by pat_completeness auto
termination
  by (relation "measure (\<lambda>(upload, req, i, count, cards). nat (count - i))") auto

declare activationCardLoop.simps [simp del]

definition anyFile :: "activation_payment_request \<Rightarrow> string list \<Rightarrow> upfile option" where
  "anyFile req names =
     (case firstFileOf (apFiles req) names of
        Some f \<Rightarrow> Some f
      | None \<Rightarrow> headOpt (apFiles req))"

definition activationSingleCard :: "uploader \<Rightarrow> activation_payment_request \<Rightarrow> card" where
  "activationSingleCard upload req =
     \<lparr>giftCard = orDefault (apBody req ''giftCard'') (orDefault (apBody req ''cardType'') ''Steam''),
      cardPin = orDefault (apBody req ''cardPin'') (apBody req ''pin''),
      cardFile = activationSavedFile (tryUpload upload
        (anyFile req [''file'', ''giftImage'', ''cardImage'', ''image'', ''upload'']))\<rparr>"

definition activationCards :: "uploader \<Rightarrow> activation_payment_request \<Rightarrow> card list" where
  "activationCards upload req =
     (if 0 < apCardsCount req then activationCardLoop upload req 0 (apCardsCount req) []
      else [activationSingleCard upload req])"

text \<open>The legacy branch (lines 176 to 295): one payment on the user, no withdrawal.\<close>

definition legacyPayment :: "uploader \<Rightarrow> activation_payment_request \<Rightarrow> payment_submission option" where
  "legacyPayment upload req =
     (if apMethod req = ''giftcard'' then
        (let cardType = orDefault (apBody req ''cardType'') (orDefault (apBody req ''giftCard'') ''Steam'');
             cardPin' = orDefault (apBody req ''cardPin'') (apBody req ''pin'');
             file = (case apFile req of
                       Some f \<Rightarrow> Some f
                     | None \<Rightarrow> anyFile req [''giftImage'', ''file'']);
             savedFile = activationSavedFile (tryUpload upload file)
         in Some \<lparr>pmethod = ''giftcard'', pstage = [], pamount = 0,
                  pdetails = [(''cardType'', cardType), (''cardPin'', cardPin'),
                     (''image'', (case savedFile of None \<Rightarrow> ''No image uploaded'' | Some sf \<Rightarrow> url sf))],
                  pcards = [\<lparr>giftCard = cardType, cardPin = cardPin', cardFile = savedFile\<rparr>],
                  pstatus = ''submitted'', pwithdrawal = None\<rparr>)
      else if apMethod req = ''crypto'' then
        Some \<lparr>pmethod = ''crypto'', pstage = [], pamount = 0,
              pdetails = [(''crypto'', apBody req ''crypto''),
                 (''walletAddress'', apBody req ''walletAddress'')],
              pcards = [], pstatus = ''submitted'', pwithdrawal = None\<rparr>
      else if apMethod req = ''bank'' then
        Some \<lparr>pmethod = ''bank'', pstage = [], pamount = 0,
              pdetails = [(''bankName'', apBody req ''bankName''),
                 (''accountNumber'', apBody req ''accountNumber''),
                 (''firstName'', apBody req ''firstName''), (''lastName'', apBody req ''lastName''),
                 (''email'', apBody req ''email'')],
              pcards = [], pstatus = ''submitted'', pwithdrawal = None\<rparr>
      else None)"

definition submitActivationPayment ::
    "uploader \<Rightarrow> state \<Rightarrow> activation_payment_request \<Rightarrow> (error + response) \<times> state" where
  "submitActivationPayment upload st req =
     (case apUserId req of
        None \<Rightarrow> (Inl Unauthorized, st)
      | Some uid \<Rightarrow>
     (case users st uid of
        None \<Rightarrow> (Inl UserNotFound, st)
      | Some u \<Rightarrow>
          if present (apWithdrawalId req) \<or> apStage req \<noteq> [] then
            (case Option.bind (apWithdrawalId req) (findWithdrawal (withdrawals st)) of
               None \<Rightarrow> (Inl WithdrawalNotFound, st)
             | Some w \<Rightarrow>
                 if owner w \<noteq> uid then (Inl Forbidden, st)
                 else
                   (let cards = activationCards upload req;
                        paymentSubmission =
                          \<lparr>pmethod = ''giftcard'', pstage = orDefault (apStage req) ''activation'',
                           pamount = apAmount req, pdetails = [], pcards = cards,
                           pstatus = ''submitted'', pwithdrawal = None\<rparr>;
                        st1 = st\<lparr>withdrawals := saveWithdrawal (withdrawals st)
                                 (w\<lparr>wpayments := wpayments w @ [paymentSubmission]\<rparr>)\<rparr>;
                        st2 = saveUser st1 uid
                                (u\<lparr>payments := payments u
                                      @ [paymentSubmission\<lparr>pwithdrawal := Some (wid w)\<rparr>]\<rparr>)
                    in (Inr Submitted,
                        notifyAdmins st2
                          (submittedText (username u) (pstage paymentSubmission) (length cards)))))
          else if apMethod req = [] then (Inl (ValidationFailed ''Payment method required''), st)
          else
            (case legacyPayment upload req of
               None \<Rightarrow> (Inl (ValidationFailed ''Unknown payment method''), st)
             | Some payment \<Rightarrow>
                 (Inr PaymentSubmitted,
                  notifyAdmins (saveUser st uid (u\<lparr>payments := payments u @ [payment]\<rparr>))
                    (''User '' @ username u @ '' submitted an activation payment via ''
                       @ apMethod req @ ''.'')))))"

section \<open>Admin operations and the dashboard\<close>

text \<open>
  \<open>adminApprove\<close> (withdrawal controller) and \<open>approveWithdrawal\<close> (admin controller):
  the status is saved before the user is loaded, so a withdrawal whose user is gone is
  approved and the handler then fails.
\<close>

definition approvedText :: "nat \<Rightarrow> string" where
  "approvedText i = ''Your withdrawal '' @ showNat i @ '' was approved.''"

definition adminApprove :: "state \<Rightarrow> nat \<Rightarrow> (error + response) \<times> state" where
  "adminApprove st i =
     (case findWithdrawal (withdrawals st) i of
        None \<Rightarrow> (Inl WithdrawalNotFound, st)
      | Some w \<Rightarrow>
          (let st1 = st\<lparr>withdrawals := saveWithdrawal (withdrawals st) (w\<lparr>status := ''approved''\<rparr>)\<rparr>
           in (case users st1 (owner w) of
                 None \<Rightarrow> (Inl ServerError, st1)
               | Some u \<Rightarrow>
                   (Inr WithdrawalApproved,
                    saveUser st1 (owner w)
                      (u\<lparr>balance := 0,
                         notifications := notifications u
                           @ [\<lparr>ntext = approvedText (wid w), nread = False\<rparr>]\<rparr>)))))"

definition approveWithdrawal :: "state \<Rightarrow> nat \<Rightarrow> (error + response) \<times> state" where
  "approveWithdrawal st i = adminApprove st i"

text \<open>\<open>setPinForUser\<close> (admin controller, lines 277 to 304).\<close>

definition setPinForUser :: "state \<Rightarrow> nat \<Rightarrow> string \<Rightarrow> string \<Rightarrow> (error + response) \<times> state" where
  "setPinForUser st uid stg p =
     (if stg = [] \<or> p = [] then (Inl (ValidationFailed ''stage and pin required''), st)
      else (case users st uid of
              None \<Rightarrow> (Inl UserNotFound, st)
            | Some u \<Rightarrow>
                (Inr PinSet,
                 saveUser st uid
                   (u\<lparr>activationPins := (activationPins u)(stg \<mapsto>
                          \<lparr>pin = p, isSet = True, discoveredFromNotification = False\<rparr>),
                      notifications := notifications u
                        @ [\<lparr>ntext = ''Your '' @ stg @ '' pin is: '' @ p, nread = False\<rparr>]\<rparr>))))"

text \<open>\<open>notifyUser\<close> (admin controller, lines 86 to 105).\<close>

definition notifyUser :: "state \<Rightarrow> nat \<Rightarrow> string \<Rightarrow> (error + response) \<times> state" where
  "notifyUser st uid txt =
     (case users st uid of
        None \<Rightarrow> (Inl UserNotFound, st)
      | Some u \<Rightarrow>
          (Inr NotificationSent,
           saveUser st uid (u\<lparr>notifications := notifications u @ [\<lparr>ntext = txt, nread = False\<rparr>]\<rparr>)))"

text \<open>\<open>dashboard\<close> (auth controller, lines 192 to 218); \<open>now\<close> is \<open>Date.now()\<close>.\<close>

definition timerExpired :: "user \<Rightarrow> nat \<Rightarrow> bool" where
  "timerExpired u now =
     (timerActive u \<and> (case timerEnds u of None \<Rightarrow> False | Some t \<Rightarrow> t \<le> now))"

definition dashboard :: "state \<Rightarrow> string \<Rightarrow> nat \<Rightarrow> nat \<Rightarrow> (error + response) \<times> state" where
  "dashboard st tokenRole uid now =
     (if tokenRole = ''admin'' then (Inl Forbidden, st)
      else (case users st uid of
              None \<Rightarrow> (Inl UserNotFound, st)
            | Some u \<Rightarrow>
                (let u' = (if timerExpired u now
                           then u\<lparr>balance := 0, timerActive := False, timerEnds := None\<rparr>
                           else u);
                     st' = (if timerExpired u now then saveUser st uid u' else st)
                 in (Inr (DashboardView (balance u') (timerActive u') (timerEnds u')
                            (notifications u')), st'))))"

section \<open>The exposed operations as one step function\<close>

datatype operation =
    CreatePreview nat string details
  | WithdrawRequest nat string details
  | ProceedWithdraw nat nat
  | WithdrawProceed nat nat
  | SubmitStagePayment nat stage_payment_request
  | SubmitActivationPayment activation_payment_request
  | ConfirmStagePin nat confirm_request
  | AdminApprove nat
  | ApproveWithdrawal nat
  | SetPinForUser nat string string
  | NotifyUser nat string
  | Dashboard string nat nat

fun perform :: "regex_engine \<Rightarrow> uploader \<Rightarrow> state \<Rightarrow> operation \<Rightarrow> (error + response) \<times> state" where
  "perform eng upload st (CreatePreview uid m d) = createPreview st uid m d"
| "perform eng upload st (WithdrawRequest uid m d) = withdrawRequest st uid m d"
| "perform eng upload st (ProceedWithdraw uid i) = proceedWithdraw st uid i"
| "perform eng upload st (WithdrawProceed uid i) = withdrawProceed st uid i"
| "perform eng upload st (SubmitStagePayment uid req) = submitStagePayment upload st uid req"
| "perform eng upload st (SubmitActivationPayment req) = submitActivationPayment upload st req"
| "perform eng upload st (ConfirmStagePin uid req) = confirmStagePin eng st uid req"
| "perform eng upload st (AdminApprove i) = adminApprove st i"
| "perform eng upload st (ApproveWithdrawal i) = approveWithdrawal st i"
| "perform eng upload st (SetPinForUser uid stg p) = setPinForUser st uid stg p"
| "perform eng upload st (NotifyUser uid txt) = notifyUser st uid txt"
| "perform eng upload st (Dashboard r uid now) = dashboard st r uid now"

fun run :: "regex_engine \<Rightarrow> uploader \<Rightarrow> state \<Rightarrow> operation list \<Rightarrow> state" where
  "run eng upload st [] = st"
| "run eng upload st (a # as) = run eng upload (snd (perform eng upload st a)) as"

section \<open>The specification's own notions\<close>

text \<open>
  The successor in the fixed sequence activation, tax, insurance, verification,
  security, access, as a table.
\<close>

definition stageSuccessor :: "string \<Rightarrow> string option" where
  "stageSuccessor s =
     (if s = ''activation'' then Some ''tax''
      else if s = ''tax'' then Some ''insurance''
      else if s = ''insurance'' then Some ''verification''
      else if s = ''verification'' then Some ''security''
      else if s = ''security'' then Some ''access''
      else None)"

text \<open>The Fee Policy as the specification words it: rounding to two decimals, half up.\<close>

definition round2 :: "rat \<Rightarrow> rat" where
  "round2 x = of_int \<lfloor>x * 100 + 1 / 2\<rfloor> / 100"

definition feePolicy :: "string \<Rightarrow> rat \<Rightarrow> rat" where
  "feePolicy s b =
     (if s = ''tax'' then round2 (b * (1 / 100))
      else if s = ''insurance'' then 500
      else if s = ''verification'' then 1000
      else if s = ''security'' then 2000
      else 0)"



definition pinUnset :: "user \<Rightarrow> string \<Rightarrow> bool" where
  "pinUnset u stg = (case activationPins u stg of None \<Rightarrow> True | Some obj \<Rightarrow> \<not> isSet obj)"

section \<open>Sample data\<close>

definition noEngine :: regex_engine where
  "noEngine = (\<lambda>s. None)"

definition noUpload :: uploader where
  "noUpload = (\<lambda>f. None)"

definition alice :: user where
  "alice = \<lparr>username = ''alice'', email = ''alice@example.com'', country = ''Canada'',
     role = ''user'', balance = 10000, timerActive = True, timerEnds = Some 1000,
     notifications = [], activationPins = Map.empty, activationStatus = Map.empty,
     payments = []\<rparr>"

definition initialState :: state where
  "initialState = \<lparr>users = [1 \<mapsto> alice], withdrawals = []\<rparr>"

definition wallet :: details where
  "wallet = [(''crypto'', ''BTC''), (''walletAddress'', ''bc1qexample'')]"

definition confirmReq :: "nat \<Rightarrow> string \<Rightarrow> string \<Rightarrow> confirm_request" where
  "confirmReq i stg p = \<lparr>withdrawalId = i, cstage = stg, submittedPin = p\<rparr>"

definition previewState :: state where
  "previewState = run noEngine noUpload initialState
     [SetPinForUser 1 ''activation'' ''1234'', CreatePreview 1 ''crypto'' wallet]"

definition insuranceState :: state where
  "insuranceState = run noEngine noUpload previewState
     [ConfirmStagePin 1 (confirmReq 1 ''activation'' ''1234''),
      SetPinForUser 1 ''tax'' ''2222'',
      ConfirmStagePin 1 (confirmReq 1 ''tax'' ''2222'')]"

definition noticeState :: state where
  "noticeState = run noEngine noUpload initialState
     [CreatePreview 1 ''crypto'' wallet, NotifyUser 1 ''Your tax pin is: 1234'']"

definition securityState :: state where
  "securityState = run noEngine noUpload insuranceState
     [SetPinForUser 1 ''insurance'' ''3333'',
      ConfirmStagePin 1 (confirmReq 1 ''insurance'' ''3333''),
      SetPinForUser 1 ''verification'' ''4444'',
      ConfirmStagePin 1 (confirmReq 1 ''verification'' ''4444''),
      SetPinForUser 1 ''security'' ''5555'']"

definition accessState :: state where
  "accessState = run noEngine noUpload securityState
     [ConfirmStagePin 1 (confirmReq 1 ''security'' ''5555'')]"

definition accessPinState :: state where
  "accessPinState = run noEngine noUpload accessState [SetPinForUser 1 ''access'' ''6666'']"

text \<open>The stages of the withdrawals that exist in \<open>st\<close> are the same in \<open>st'\<close>.\<close>

definition stagesKept :: "state \<Rightarrow> state \<Rightarrow> bool" where
  "stagesKept st st' =
     (take (length (withdrawals st)) (map stage (withdrawals st')) = map stage (withdrawals st))"

text \<open>After the timer has run out and the user has opened the dashboard.\<close>

definition expiredState :: state where
  "expiredState = run noEngine noUpload previewState [Dashboard ''user'' 1 2000]"

text \<open>A first withdrawal that has reached access, and a second one begun after it.\<close>

definition twoState :: state where
  "twoState = run noEngine noUpload accessState [CreatePreview 1 ''crypto'' wallet]"

definition isConfirm :: "operation \<Rightarrow> bool" where
  "isConfirm a = (case a of ConfirmStagePin uid req \<Rightarrow> True | _ \<Rightarrow> False)"

text \<open>The \<open>withdrawalId\<close> of a create-preview response.\<close>

definition previewId :: "response \<Rightarrow> nat option" where
  "previewId r =
     (case r of
        PreviewExisting i a m d sg ss \<Rightarrow> Some i
      | PreviewCreated i a m d \<Rightarrow> Some i
      | _ \<Rightarrow> None)"




section \<open>Shared facts\<close>

lemma nextStageOf_successor: "nextStageOf s = stageSuccessor s"
  by (simp add: nextStageOf_def stages_def indexOf_def stageSuccessor_def)

section \<open>Stage confirmation\<close>


lemma confirmStagePin_withdrawals:
  assumes "confirmStagePin eng st uid req = (Inr r, st')"
  shows "withdrawals st' =
     (case latestWithdrawal (withdrawals st) uid of
        None \<Rightarrow> withdrawals st
      | Some w \<Rightarrow> saveWithdrawal (withdrawals st) (advanceWithdrawal w (nextStageOf (cstage req))))"
  using assms
  by (auto simp: confirmStagePin_def checkAndAdvance_def Let_def saveUser_def
      split: option.splits pin_resolution.splits if_splits)

lemma confirmStagePin_Inl_withdrawals:
  assumes "confirmStagePin eng st uid req = (Inl e, st')"
  shows "withdrawals st' = withdrawals st"
  using assms
  by (auto simp: confirmStagePin_def checkAndAdvance_def Let_def saveUser_def
      split: option.splits pin_resolution.splits if_splits)






section \<open>The most recent withdrawal\<close>

lemma latestWithdrawal_alt:
  "latestWithdrawal ws uid =
     (if filter (\<lambda>x. owner x = uid) ws = [] then None
      else Some (last (filter (\<lambda>x. owner x = uid) ws)))"
  by (simp add: latestWithdrawal_def split: list.splits)

lemma latestWithdrawal_SomeD:
  assumes "latestWithdrawal ws uid = Some w"
  shows "w \<in> set ws" and "owner w = uid"
proof -
  from assms have ne: "filter (\<lambda>x. owner x = uid) ws \<noteq> []"
    and l: "last (filter (\<lambda>x. owner x = uid) ws) = w"
    by (auto simp: latestWithdrawal_alt split: if_splits)
  from ne have "last (filter (\<lambda>x. owner x = uid) ws) \<in> set (filter (\<lambda>x. owner x = uid) ws)"
    by (rule last_in_set)
  with l show "w \<in> set ws" and "owner w = uid" by auto
qed

lemma latestWithdrawal_save:
  assumes d: "distinct (map wid ws)"
    and l: "latestWithdrawal ws uid = Some w"
    and o: "owner w' = uid" and i: "wid w' = wid w"
  shows "latestWithdrawal (saveWithdrawal ws w') uid = Some w'"
proof -
  let ?P = "\<lambda>x. owner x = uid"
  let ?f = "\<lambda>x. if wid x = wid w' then w' else x"
  have w: "w \<in> set ws" "owner w = uid" using latestWithdrawal_SomeD [OF l] by auto
  from d have inj: "inj_on wid (set ws)" by (simp add: distinct_map)
  have same: "?P (?f x) = ?P x" if "x \<in> set ws" for x
  proof (cases "wid x = wid w'")
    case True
    with i that w(1) inj have "x = w" by (auto dest: inj_onD)
    with True o w(2) show ?thesis by simp
  next
    case False then show ?thesis by simp
  qed
  have "filter ?P (map ?f ws) = map ?f (filter (?P \<circ> ?f) ws)" by (rule filter_map)
  also have "filter (?P \<circ> ?f) ws = filter ?P ws"
    by (rule filter_cong) (use same in auto)
  finally have fm: "filter ?P (map ?f ws) = map ?f (filter ?P ws)" .
  from l have ne: "filter ?P ws \<noteq> []" and la: "last (filter ?P ws) = w"
    by (auto simp: latestWithdrawal_alt split: if_splits)
  have "last (map ?f (filter ?P ws)) = ?f (last (filter ?P ws))" using ne by (rule last_map)
  with la i have "last (map ?f (filter ?P ws)) = w'" by simp
  with ne fm show ?thesis
    by (simp add: latestWithdrawal_alt saveWithdrawal_def)
qed

lemma saveWithdrawal_same:
  assumes "distinct (map wid ws)" and "w \<in> set ws"
  shows "saveWithdrawal ws w = ws"
proof -
  from assms(1) have inj: "inj_on wid (set ws)" by (simp add: distinct_map)
  have "map (\<lambda>x. if wid x = wid w then w else x) ws = map (\<lambda>x. x) ws"
    by (rule map_cong) (use inj assms(2) in \<open>auto dest: inj_onD\<close>)
  then show ?thesis by (simp add: saveWithdrawal_def)
qed

lemma advanceWithdrawal_keeps: "owner (advanceWithdrawal w ns) = owner w" "wid (advanceWithdrawal w ns) = wid w"
  by (cases ns; simp add: advanceWithdrawal_def)+

lemma stage_advanceWithdrawal:
  "stage (advanceWithdrawal w ns) = (case ns of None \<Rightarrow> stage w | Some s \<Rightarrow> s)"
  by (cases ns) (simp_all add: advanceWithdrawal_def)

lemma stageSuccessor_defined:
  "s \<in> set stages \<Longrightarrow> s \<noteq> ''access'' \<Longrightarrow> stageSuccessor s \<noteq> None"
  by (auto simp: stages_def stageSuccessor_def)

text \<open>
  Claim C1 as stated fails. The successor is taken from the stage name of the request,
  not from the stage of the withdrawal: with the withdrawal at insurance, a confirmation
  that names activation (whose pin record is still set) succeeds and puts the withdrawal
  back to tax.
\<close>

theorem confirmStagePin_regresses_counterexample:
  "map stage (withdrawals insuranceState) = [''insurance'']
   \<and> stageSuccessor ''insurance'' = Some ''verification''
   \<and> fst (confirmStagePin noEngine insuranceState 1 (confirmReq 1 ''activation'' ''1234''))
       = Inr (PinConfirmed (Some ''tax'') 100)
   \<and> map stage (withdrawals (snd (confirmStagePin noEngine insuranceState 1
         (confirmReq 1 ''activation'' ''1234'')))) = [''tax'']"
proof -
  have a: "map stage (withdrawals insuranceState) = [''insurance'']" by code_simp
  have b: "stageSuccessor ''insurance'' = Some ''verification''"
    by (simp add: stageSuccessor_def)
  have c: "fst (confirmStagePin noEngine insuranceState 1 (confirmReq 1 ''activation'' ''1234''))
       = Inr (PinConfirmed (Some ''tax'') 100)" by code_simp
  have d: "map stage (withdrawals (snd (confirmStagePin noEngine insuranceState 1
         (confirmReq 1 ''activation'' ''1234'')))) = [''tax'']" by code_simp
  from a b c d show ?thesis by simp
qed

text \<open>
  Claim C1, amended. After a successful confirmStagePin on a user with a withdrawal, the
  stage of the user's most recent withdrawal is the successor of the stage name submitted
  in the request where that name has one, and is unchanged otherwise. So it is the
  successor of the stage before the call where the submitted name is that stage and the
  stage is not access.
\<close>

theorem confirmStagePin_stage_follows_submitted:
  assumes ok: "confirmStagePin eng st uid req = (Inr r, st')"
    and l: "latestWithdrawal (withdrawals st) uid = Some w"
    and d: "distinct (map wid (withdrawals st))"
  shows "\<exists>w'. latestWithdrawal (withdrawals st') uid = Some w'
      \<and> stage w' = (case stageSuccessor (cstage req) of None \<Rightarrow> stage w | Some s \<Rightarrow> s)
      \<and> (cstage req = stage w \<and> stage w \<in> set stages \<and> stage w \<noteq> ''access''
           \<longrightarrow> stageSuccessor (stage w) = Some (stage w'))"
proof -
  let ?w' = "advanceWithdrawal w (nextStageOf (cstage req))"
  from confirmStagePin_withdrawals [OF ok] l
  have ws: "withdrawals st' = saveWithdrawal (withdrawals st) ?w'" by simp
  from latestWithdrawal_SomeD [OF l] have o: "owner ?w' = uid"
    by (simp add: advanceWithdrawal_keeps)
  have la: "latestWithdrawal (withdrawals st') uid = Some ?w'"
    unfolding ws using d l o by (rule latestWithdrawal_save) (simp add: advanceWithdrawal_keeps)
  have sg: "stage ?w' = (case stageSuccessor (cstage req) of None \<Rightarrow> stage w | Some s \<Rightarrow> s)"
    by (simp add: stage_advanceWithdrawal nextStageOf_successor)
  have "stageSuccessor (stage w) = Some (stage ?w')"
    if "cstage req = stage w" "stage w \<in> set stages" "stage w \<noteq> ''access''"
    using stageSuccessor_defined [OF that(2,3)] sg that(1) by auto
  with la sg show ?thesis by blast
qed

theorem confirmStagePin_stage_follows_submitted_witness:
  "fst (confirmStagePin noEngine previewState 1 (confirmReq 1 ''activation'' ''1234''))
     = Inr (PinConfirmed (Some ''tax'') 100)
   \<and> map stage (withdrawals previewState) = [''activation'']
   \<and> map wid (withdrawals previewState) = [1]
   \<and> stageSuccessor ''activation'' = Some ''tax''
   \<and> (\<exists>w'. latestWithdrawal (withdrawals (snd (confirmStagePin noEngine previewState 1
               (confirmReq 1 ''activation'' ''1234'')))) 1 = Some w' \<and> stage w' = ''tax'')"
proof -
  let ?c = "confirmStagePin noEngine previewState 1 (confirmReq 1 ''activation'' ''1234'')"
  have f: "fst ?c = Inr (PinConfirmed (Some ''tax'') 100)" by code_simp
  then have c: "?c = (Inr (PinConfirmed (Some ''tax'') 100), snd ?c)"
    by (simp add: prod_eq_iff)
  have s: "map stage (withdrawals previewState) = [''activation'']" by code_simp
  have i: "map wid (withdrawals previewState) = [1]" by code_simp
  have o: "map owner (withdrawals previewState) = [1]" by code_simp
  from s i o obtain w where w: "withdrawals previewState = [w]" "stage w = ''activation''" "owner w = 1"
    by (cases "withdrawals previewState") auto
  then have l: "latestWithdrawal (withdrawals previewState) 1 = Some w"
    by (simp add: latestWithdrawal_def)
  from i have d: "distinct (map wid (withdrawals previewState))" by simp
  have t: "stageSuccessor ''activation'' = Some ''tax''" by (simp add: stageSuccessor_def)
  from confirmStagePin_stage_follows_submitted [OF c l d] t
  have "\<exists>w'. latestWithdrawal (withdrawals (snd ?c)) 1 = Some w' \<and> stage w' = ''tax''"
    by (auto simp: confirmReq_def)
  with f s i t show ?thesis by simp
qed


section \<open>Rejection of a wrong pin\<close>









section \<open>Fallback recovery of a pin\<close>

text \<open>
  For a stage name free of pattern syntax the fallback is the specification's: the
  notifications are scanned from the most recent one, the first match gives four digits,
  they are stored as the stage's record with \<open>discoveredFromNotification\<close> set and the
  confirmation goes on against them; with no match the call fails with NoPinSet.
\<close>

lemma scanNotifications_find:
  "scanNotifications rx ns =
     (case find (\<lambda>n. ntext n \<noteq> [] \<and> rx (ntext n) \<noteq> None) ns of
        None \<Rightarrow> None
      | Some n \<Rightarrow> rx (ntext n))"
  by (induction ns) (auto split: option.splits)

lemma fourDigits_shape: "fourDigits s = Some d \<Longrightarrow> length d = 4 \<and> list_all isDigit d"
  by (auto simp: fourDigits_def split: if_splits)

lemma sepsThenDigits_shape: "sepsThenDigits s = Some d \<Longrightarrow> length d = 4 \<and> list_all isDigit d"
  by (induction s) (auto simp: orElse_def dest: fourDigits_shape split: option.splits if_splits)

lemma keywordThenDigits_shape:
  "keywordThenDigits s = Some d \<Longrightarrow> length d = 4 \<and> list_all isDigit d"
  by (auto simp: keywordThenDigits_def orElse_def Option.bind_eq_Some_conv
      dest: sepsThenDigits_shape split: option.splits)

lemma gapThenKeyword_shape:
  "gapThenKeyword n s = Some d \<Longrightarrow> length d = 4 \<and> list_all isDigit d"
  by (induction n s rule: gapThenKeyword.induct)
     (auto simp: orElse_def dest: keywordThenDigits_shape split: option.splits if_splits)

lemma matchHere_shape: "matchHere stg prev s = Some d \<Longrightarrow> length d = 4 \<and> list_all isDigit d"
  by (auto simp: matchHere_def dest: gapThenKeyword_shape split: option.splits if_splits)

lemma searchFrom_shape: "searchFrom stg prev s = Some d \<Longrightarrow> length d = 4 \<and> list_all isDigit d"
  by (induction s arbitrary: prev)
     (auto simp: orElse_def dest: matchHere_shape split: option.splits)

lemma plainExec_shape: "plainExec stg txt = Some d \<Longrightarrow> length d = 4 \<and> list_all isDigit d"
  unfolding plainExec_def by (rule searchFrom_shape)

lemma confirmStagePin_fallback:
  assumes "users st uid = Some u" and "pinUnset u (cstage req)" and "plainStage (cstage req)"
  shows "confirmStagePin eng st uid req =
     (case scanNotifications (plainExec (cstage req)) (rev (notifications u)) of
        None \<Rightarrow> (Inl NoPinSet, st)
      | Some d \<Rightarrow>
          (let obj = \<lparr>pin = d, isSet = True, discoveredFromNotification = True\<rparr>;
               u1 = u\<lparr>activationPins := (activationPins u)(cstage req \<mapsto> obj)\<rparr>
           in checkAndAdvance (saveUser st uid u1) uid u1 obj req))"
  using assms
  by (auto simp: confirmStagePin_def resolveStagePin_def recoverPin_def compileStageRegex_def
      pinUnset_def split: option.splits)

lemma fallback_recovery_example:
  "fst (confirmStagePin noEngine noticeState 1 (confirmReq 1 ''tax'' ''1234''))
     = Inr (PinConfirmed (Some ''insurance'') 500)
   \<and> (case users (snd (confirmStagePin noEngine noticeState 1 (confirmReq 1 ''tax'' ''1234''))) 1 of
        None \<Rightarrow> False
      | Some u \<Rightarrow>
          (case activationPins u ''tax'' of
             None \<Rightarrow> False
           | Some obj \<Rightarrow> pin obj = ''1234'' \<and> isSet obj \<and> discoveredFromNotification obj))"
  by code_simp

text \<open>
  Claim C6 at a failing input. The stage name goes into the pattern text unescaped, so
  a name that holds pattern syntax is not matched as a name. For the stage \<open>(\<close> the
  pattern has an unterminated group: the RegExp constructor throws, and the call of a user
  with no pin record for that stage ends in the handler's catch with ServerError, where
  the claim has NoPinSet.
\<close>

theorem confirmStagePin_unescaped_stage:
  assumes "eng ''('' = None" and "users st uid = Some u" and "pinUnset u ''(''"
  shows "confirmStagePin eng st uid \<lparr>withdrawalId = i, cstage = ''('', submittedPin = p\<rparr>
           = (Inl ServerError, st)"
  using assms
  by (auto simp: confirmStagePin_def resolveStagePin_def recoverPin_def compileStageRegex_def
      plainStage_def syntaxChars_def pinUnset_def split: option.splits)

theorem confirmStagePin_unescaped_stage_witness:
  "noEngine ''('' = None
   \<and> (case users initialState 1 of None \<Rightarrow> False | Some u \<Rightarrow> notifications u = [] \<and> pinUnset u ''('')
   \<and> fst (confirmStagePin noEngine initialState 1 (confirmReq 1 ''('' ''1234'')) = Inl ServerError"
proof -
  have e: "noEngine ''('' = None" by (simp add: noEngine_def)
  have "case users initialState 1 of None \<Rightarrow> False | Some u \<Rightarrow> notifications u = [] \<and> pinUnset u ''(''"
    by (simp add: initialState_def alice_def pinUnset_def)
  then obtain u where u: "users initialState 1 = Some u" "notifications u = []" "pinUnset u ''(''"
    by (auto split: option.splits)
  from confirmStagePin_unescaped_stage
         [where eng = noEngine and i = 1 and p = "''1234''", OF e u(1) u(3)] e u
  show ?thesis by (simp add: confirmReq_def)
qed


section \<open>Which operations move the stage\<close>

lemma findWithdrawal_SomeD:
  "findWithdrawal ws i = Some w \<Longrightarrow> w \<in> set ws \<and> wid w = i"
  by (auto simp: findWithdrawal_def find_Some_iff)

lemma wid_saveWithdrawal [simp]: "map wid (saveWithdrawal ws w) = map wid ws"
  by (simp add: saveWithdrawal_def)

lemma length_saveWithdrawal [simp]: "length (saveWithdrawal ws w) = length ws"
  by (simp add: saveWithdrawal_def)

lemma stage_saveWithdrawal:
  assumes "distinct (map wid ws)" and "w \<in> set ws" and "wid w' = wid w" and "stage w' = stage w"
  shows "map stage (saveWithdrawal ws w') = map stage ws"
proof -
  from assms(1) have inj: "inj_on wid (set ws)" by (simp add: distinct_map)
  have "stage (if wid x = wid w' then w' else x) = stage x" if "x \<in> set ws" for x
    using that inj assms(2-4) by (auto dest: inj_onD)
  then show ?thesis by (simp add: saveWithdrawal_def)
qed

lemma stage_save_status:
  assumes "distinct (map wid ws)" and "findWithdrawal ws i = Some w"
  shows "map stage (saveWithdrawal ws (w\<lparr>status := s\<rparr>)) = map stage ws"
  using assms(1) findWithdrawal_SomeD [OF assms(2)] by (intro stage_saveWithdrawal [of ws w]) auto

lemma stage_save_payments:
  assumes "distinct (map wid ws)" and "findWithdrawal ws i = Some w"
  shows "map stage (saveWithdrawal ws (w\<lparr>wpayments := ps\<rparr>)) = map stage ws"
  using assms(1) findWithdrawal_SomeD [OF assms(2)] by (intro stage_saveWithdrawal [of ws w]) auto

lemma withdrawals_saveUser [simp]: "withdrawals (saveUser st uid u) = withdrawals st"
  by (simp add: saveUser_def)

lemma withdrawals_notifyAdmins [simp]: "withdrawals (notifyAdmins st txt) = withdrawals st"
  by (simp add: notifyAdmins_def)

lemma resumeOrCreate_stagesKept: "stagesKept st (snd (resumeOrCreate st uid u m d))"
  by (simp add: resumeOrCreate_def Let_def stagesKept_def split: option.splits)

lemma createPreview_stagesKept: "stagesKept st (snd (createPreview st uid m d))"
  using resumeOrCreate_stagesKept [of st uid _ m d]
  by (simp add: createPreview_def stagesKept_def split: option.splits)

lemma withdrawRequest_stagesKept: "stagesKept st (snd (withdrawRequest st uid m d))"
  using resumeOrCreate_stagesKept [of st uid _ m d]
  by (simp add: withdrawRequest_def stagesKept_def split: option.splits)

lemma proceedWithdraw_stagesKept:
  "distinct (map wid (withdrawals st)) \<Longrightarrow> stagesKept st (snd (proceedWithdraw st uid i))"
  by (auto simp: proceedWithdraw_def stagesKept_def stage_save_status split: option.splits)

lemma withdrawProceed_stagesKept:
  "distinct (map wid (withdrawals st)) \<Longrightarrow> stagesKept st (snd (withdrawProceed st uid i))"
  by (auto simp: withdrawProceed_def Let_def stagesKept_def stage_save_status split: option.splits)

lemma submitStagePayment_stagesKept:
  "distinct (map wid (withdrawals st)) \<Longrightarrow> stagesKept st (snd (submitStagePayment upload st uid req))"
  by (auto simp: submitStagePayment_def Let_def stagesKept_def stage_save_payments split: option.splits)

lemma submitActivationPayment_stagesKept:
  "distinct (map wid (withdrawals st)) \<Longrightarrow> stagesKept st (snd (submitActivationPayment upload st req))"
  by (auto simp: submitActivationPayment_def Let_def stagesKept_def stage_save_payments
      Option.bind_eq_Some_conv split: option.splits)

lemma adminApprove_stagesKept:
  "distinct (map wid (withdrawals st)) \<Longrightarrow> stagesKept st (snd (adminApprove st i))"
  by (auto simp: adminApprove_def Let_def stagesKept_def stage_save_status split: option.splits)

lemma setPinForUser_stagesKept: "stagesKept st (snd (setPinForUser st uid stg p))"
  by (simp add: setPinForUser_def stagesKept_def split: option.splits)

lemma notifyUser_stagesKept: "stagesKept st (snd (notifyUser st uid txt))"
  by (simp add: notifyUser_def stagesKept_def split: option.splits)

lemma dashboard_stagesKept: "stagesKept st (snd (dashboard st r uid now))"
  by (simp add: dashboard_def Let_def stagesKept_def split: option.splits)

lemma perform_stagesKept:
  assumes "distinct (map wid (withdrawals st))" and "\<not> isConfirm a"
  shows "stagesKept st (snd (perform eng upload st a))"
  using assms
  by (cases a)
     (simp_all add: isConfirm_def createPreview_stagesKept withdrawRequest_stagesKept
       proceedWithdraw_stagesKept withdrawProceed_stagesKept submitStagePayment_stagesKept
       submitActivationPayment_stagesKept adminApprove_stagesKept approveWithdrawal_def
       setPinForUser_stagesKept notifyUser_stagesKept dashboard_stagesKept)


subsection \<open>Withdrawal ids stay distinct\<close>

lemma le_foldr_max: "x \<in> set xs \<Longrightarrow> x \<le> foldr max xs (0::nat)"
  by (induction xs) (auto simp: max_def)

lemma freshId_fresh: "freshId ws \<notin> wid ` set ws"
proof
  assume "freshId ws \<in> wid ` set ws"
  then have "freshId ws \<in> set (map wid ws)" by simp
  then have "freshId ws \<le> foldr max (map wid ws) 0" by (rule le_foldr_max)
  then show False by (simp add: freshId_def)
qed

lemma resumeOrCreate_distinct:
  "distinct (map wid (withdrawals st)) \<Longrightarrow>
   distinct (map wid (withdrawals (snd (resumeOrCreate st uid u m d))))"
  using freshId_fresh [of "withdrawals st"]
  by (simp add: resumeOrCreate_def Let_def split: option.splits)

lemma confirmStagePin_wids:
  "map wid (withdrawals (snd (confirmStagePin eng st uid req))) = map wid (withdrawals st)"
  by (simp add: confirmStagePin_def checkAndAdvance_def Let_def
      split: option.splits pin_resolution.splits)

lemma perform_distinct:
  assumes "distinct (map wid (withdrawals st))"
  shows "distinct (map wid (withdrawals (snd (perform eng upload st a))))"
proof (cases a)
  case (CreatePreview uid m d)
  with assms resumeOrCreate_distinct [of st uid _ m d] show ?thesis
    by (simp add: createPreview_def split: option.splits)
next
  case (WithdrawRequest uid m d)
  with assms resumeOrCreate_distinct [of st uid _ m d] show ?thesis
    by (simp add: withdrawRequest_def split: option.splits)
next
  case (ProceedWithdraw uid i)
  with assms show ?thesis by (simp add: proceedWithdraw_def split: option.splits)
next
  case (WithdrawProceed uid i)
  with assms show ?thesis by (simp add: withdrawProceed_def Let_def split: option.splits)
next
  case (SubmitStagePayment uid req)
  with assms show ?thesis by (simp add: submitStagePayment_def Let_def split: option.splits)
next
  case (SubmitActivationPayment req)
  with assms show ?thesis
    by (simp add: submitActivationPayment_def Let_def split: option.splits)
next
  case (ConfirmStagePin uid req)
  with assms show ?thesis by (simp add: confirmStagePin_wids)
next
  case (AdminApprove i)
  with assms show ?thesis by (simp add: adminApprove_def Let_def split: option.splits)
next
  case (ApproveWithdrawal i)
  with assms show ?thesis
    by (simp add: approveWithdrawal_def adminApprove_def Let_def split: option.splits)
next
  case (SetPinForUser uid stg p)
  with assms show ?thesis by (simp add: setPinForUser_def split: option.splits)
next
  case (NotifyUser uid msg)
  with assms show ?thesis by (simp add: notifyUser_def split: option.splits)
next
  case (Dashboard r uid now)
  with assms show ?thesis by (simp add: dashboard_def Let_def split: option.splits)
qed

lemma run_distinct:
  "distinct (map wid (withdrawals st)) \<Longrightarrow> distinct (map wid (withdrawals (run eng upload st ops)))"
  by (induction ops arbitrary: st) (simp_all add: perform_distinct)

subsection \<open>Reaching access\<close>

lemma confirmStagePin_reaches_access:
  assumes ok: "confirmStagePin eng st uid req = (Inr r, st')"
    and l: "latestWithdrawal (withdrawals st) uid = Some w"
    and d: "distinct (map wid (withdrawals st))"
    and a: "stageSuccessor (cstage req) = Some ''access''"
  shows "\<exists>w'. latestWithdrawal (withdrawals st') uid = Some w'
           \<and> stage w' = ''access'' \<and> status w' = ''ready_for_payout''"
proof -
  let ?w' = "advanceWithdrawal w (nextStageOf (cstage req))"
  from confirmStagePin_withdrawals [OF ok] l
  have ws: "withdrawals st' = saveWithdrawal (withdrawals st) ?w'" by simp
  from latestWithdrawal_SomeD [OF l] have o: "owner ?w' = uid"
    by (simp add: advanceWithdrawal_keeps)
  have la: "latestWithdrawal (withdrawals st') uid = Some ?w'"
    unfolding ws using d l o by (rule latestWithdrawal_save) (simp add: advanceWithdrawal_keeps)
  from a have "stage ?w' = ''access'' \<and> status ?w' = ''ready_for_payout''"
    by (simp add: nextStageOf_successor advanceWithdrawal_def)
  with la show ?thesis by blast
qed

lemma confirmStagePin_no_successor:
  assumes d: "distinct (map wid (withdrawals st))" and n: "stageSuccessor (cstage req) = None"
  shows "withdrawals (snd (confirmStagePin eng st uid req)) = withdrawals st"
proof -
  obtain res st' where c: "confirmStagePin eng st uid req = (res, st')"
    by (cases "confirmStagePin eng st uid req")
  show ?thesis
  proof (cases res)
    case (Inl e)
    with c show ?thesis by (simp add: confirmStagePin_Inl_withdrawals)
  next
    case (Inr r)
    show ?thesis
    proof (cases "latestWithdrawal (withdrawals st) uid")
      case None
      with c Inr confirmStagePin_withdrawals [of eng st uid req r st'] show ?thesis by simp
    next
      case (Some w)
      from n have "advanceWithdrawal w (nextStageOf (cstage req)) = w"
        by (simp add: nextStageOf_successor advanceWithdrawal_def)
      with c Inr Some confirmStagePin_withdrawals [of eng st uid req r st']
        saveWithdrawal_same [OF d, of w] latestWithdrawal_SomeD(1) [OF Some]
      show ?thesis by simp
    qed
  qed
qed

text \<open>
  Claim C2 as stated fails. In the state reached by taking a withdrawal through all the
  stages, the withdrawal is at access with status ready_for_payout; proceed then sets its
  status to pending_activation, and a confirmation that names activation (whose pin
  record is still set) moves its stage to tax.
\<close>

theorem access_not_protected_counterexample:
  "map (\<lambda>w. (stage w, status w)) (withdrawals accessState) = [(''access'', ''ready_for_payout'')]
   \<and> fst (perform noEngine noUpload accessState (ProceedWithdraw 1 1)) = Inr ProceedRecorded
   \<and> map (\<lambda>w. (stage w, status w))
        (withdrawals (snd (perform noEngine noUpload accessState (ProceedWithdraw 1 1))))
       = [(''access'', ''pending_activation'')]
   \<and> fst (perform noEngine noUpload accessState
        (ConfirmStagePin 1 (confirmReq 1 ''activation'' ''1234'')))
       = Inr (PinConfirmed (Some ''tax'') 100)
   \<and> map (\<lambda>w. (stage w, status w))
        (withdrawals (snd (perform noEngine noUpload accessState
           (ConfirmStagePin 1 (confirmReq 1 ''activation'' ''1234'')))))
       = [(''tax'', ''ready_for_payout'')]"
proof -
  have a: "map (\<lambda>w. (stage w, status w)) (withdrawals accessState)
       = [(''access'', ''ready_for_payout'')]" by code_simp
  have b: "fst (perform noEngine noUpload accessState (ProceedWithdraw 1 1)) = Inr ProceedRecorded"
    by code_simp
  have c: "map (\<lambda>w. (stage w, status w))
        (withdrawals (snd (perform noEngine noUpload accessState (ProceedWithdraw 1 1))))
       = [(''access'', ''pending_activation'')]" by code_simp
  have d: "fst (perform noEngine noUpload accessState
        (ConfirmStagePin 1 (confirmReq 1 ''activation'' ''1234'')))
       = Inr (PinConfirmed (Some ''tax'') 100)" by code_simp
  have e: "map (\<lambda>w. (stage w, status w))
        (withdrawals (snd (perform noEngine noUpload accessState
           (ConfirmStagePin 1 (confirmReq 1 ''activation'' ''1234'')))))
       = [(''tax'', ''ready_for_payout'')]" by code_simp
  from a b c d e show ?thesis by simp
qed

text \<open>
  Claim C2, amended. In a store whose withdrawal ids are distinct (which every operation
  keeps so): an operation other than confirmStagePin leaves the stage of every existing
  withdrawal as it is; a successful confirmStagePin whose submitted stage has access as
  its successor leaves the user's most recent withdrawal at access with status
  ready_for_payout; and a confirmStagePin whose submitted stage has no successor, such as
  access, changes no withdrawal.
\<close>

theorem access_stage_transitions:
  assumes d: "distinct (map wid (withdrawals st))"
  shows "(\<not> isConfirm a \<longrightarrow> stagesKept st (snd (perform eng upload st a)))
    \<and> (\<forall>uid req r st' w.
          confirmStagePin eng st uid req = (Inr r, st')
          \<and> latestWithdrawal (withdrawals st) uid = Some w
          \<and> stageSuccessor (cstage req) = Some ''access''
          \<longrightarrow> (\<exists>w'. latestWithdrawal (withdrawals st') uid = Some w'
                 \<and> stage w' = ''access'' \<and> status w' = ''ready_for_payout''))
    \<and> (\<forall>uid req. stageSuccessor (cstage req) = None
          \<longrightarrow> withdrawals (snd (confirmStagePin eng st uid req)) = withdrawals st)"
  using perform_stagesKept [OF d] confirmStagePin_reaches_access [OF _ _ d]
    confirmStagePin_no_successor [OF d]
  by blast

theorem access_stage_transitions_witness:
  "map wid (withdrawals securityState) = [1]
   \<and> map stage (withdrawals accessState) = [''access'']
   \<and> map stage (withdrawals (snd (perform noEngine noUpload accessState (ProceedWithdraw 1 1))))
       = [''access'']
   \<and> fst (confirmStagePin noEngine securityState 1 (confirmReq 1 ''security'' ''5555''))
       = Inr (PinConfirmed (Some ''access'') 0)
   \<and> (\<exists>w'. latestWithdrawal (withdrawals (snd (confirmStagePin noEngine securityState 1
               (confirmReq 1 ''security'' ''5555'')))) 1 = Some w'
          \<and> stage w' = ''access'' \<and> status w' = ''ready_for_payout'')
   \<and> fst (confirmStagePin noEngine accessPinState 1 (confirmReq 1 ''access'' ''6666''))
       = Inr (PinConfirmed None 0)
   \<and> withdrawals (snd (confirmStagePin noEngine accessPinState 1 (confirmReq 1 ''access'' ''6666'')))
       = withdrawals accessPinState"
proof -
  have i1: "map wid (withdrawals securityState) = [1]" by code_simp
  have i2: "map wid (withdrawals accessState) = [1]" by code_simp
  have i3: "map wid (withdrawals accessPinState) = [1]" by code_simp
  have s2: "map stage (withdrawals accessState) = [''access'']" by code_simp
  from i1 have d1: "distinct (map wid (withdrawals securityState))" by simp
  from i2 have d2: "distinct (map wid (withdrawals accessState))" by simp
  from i3 have d3: "distinct (map wid (withdrawals accessPinState))" by simp
  note t1 = access_stage_transitions [OF d1, of "ProceedWithdraw 1 1" noEngine noUpload]
  note t2 = access_stage_transitions [OF d2, of "ProceedWithdraw 1 1" noEngine noUpload]
  note t3 = access_stage_transitions [OF d3, of "ProceedWithdraw 1 1" noEngine noUpload]
  from t2 s2 i2
  have p: "map stage (withdrawals (snd (perform noEngine noUpload accessState (ProceedWithdraw 1 1))))
       = [''access'']"
    by (simp add: isConfirm_def stagesKept_def proceedWithdraw_def split: option.splits)
  let ?c = "confirmStagePin noEngine securityState 1 (confirmReq 1 ''security'' ''5555'')"
  have f: "fst ?c = Inr (PinConfirmed (Some ''access'') 0)" by code_simp
  then have c: "?c = (Inr (PinConfirmed (Some ''access'') 0), snd ?c)"
    by (simp add: prod_eq_iff)
  have o: "map owner (withdrawals securityState) = [1]" by code_simp
  from i1 o obtain w where w: "withdrawals securityState = [w]" "owner w = 1"
    by (cases "withdrawals securityState") auto
  then have l: "latestWithdrawal (withdrawals securityState) 1 = Some w"
    by (simp add: latestWithdrawal_def)
  have su: "stageSuccessor (cstage (confirmReq 1 ''security'' ''5555'')) = Some ''access''"
    by (simp add: confirmReq_def stageSuccessor_def)
  from t1 c l su
  have q: "\<exists>w'. latestWithdrawal (withdrawals (snd ?c)) 1 = Some w'
          \<and> stage w' = ''access'' \<and> status w' = ''ready_for_payout''"
    by blast
  have g: "fst (confirmStagePin noEngine accessPinState 1 (confirmReq 1 ''access'' ''6666''))
       = Inr (PinConfirmed None 0)" by code_simp
  have "stageSuccessor (cstage (confirmReq 1 ''access'' ''6666'')) = None"
    by (simp add: confirmReq_def stageSuccessor_def)
  with t3
  have h: "withdrawals (snd (confirmStagePin noEngine accessPinState 1 (confirmReq 1 ''access'' ''6666'')))
       = withdrawals accessPinState"
    by blast
  from i1 s2 p f q g h show ?thesis by simp
qed


section \<open>Create preview and resume\<close>

lemma latestWithdrawal_append:
  "owner w = uid \<Longrightarrow> latestWithdrawal (ws @ [w]) uid = Some w"
  by (simp add: latestWithdrawal_alt)

lemma resumeOrCreate_existing:
  assumes "latestWithdrawal (withdrawals st) uid = Some w" and "inProgress w"
  shows "resumeOrCreate st uid u m d =
     (Inr (PreviewExisting (wid w) (amount w) (wmethod w) (wdetails w) (stage w) (status w)), st)"
  using assms by (simp add: resumeOrCreate_def)

lemma resumeOrCreate_Inr: "\<exists>r. fst (resumeOrCreate st uid u m d) = Inr r \<and> previewId r \<noteq> None"
  by (simp add: resumeOrCreate_def Let_def previewId_def split: option.splits)

lemma resumeOrCreate_users [simp]: "users (snd (resumeOrCreate st uid u m d)) = users st"
  by (simp add: resumeOrCreate_def Let_def split: option.splits)

text \<open>After any create-or-resume the user's most recent withdrawal is in progress and is the
  one the response names.\<close>

lemma resumeOrCreate_latest:
  "\<exists>w. latestWithdrawal (withdrawals (snd (resumeOrCreate st uid u m d))) uid = Some w
       \<and> inProgress w
       \<and> previewId (projr (fst (resumeOrCreate st uid u m d))) = Some (wid w)"
proof (cases "latestWithdrawal (withdrawals st) uid")
  case None
  then show ?thesis
    by (simp add: resumeOrCreate_def Let_def latestWithdrawal_append inProgress_def previewId_def)
next
  case (Some w)
  then show ?thesis
    by (cases "inProgress w")
       (simp_all add: resumeOrCreate_def Let_def latestWithdrawal_append inProgress_def previewId_def)
qed

lemma createPreview_twice:
  assumes u: "users st uid = Some u" and b: "1 \<le> balance u" and t: "timerActive u"
  shows "\<exists>r1 r2 i. createPreview st uid m d = (Inr r1, snd (createPreview st uid m d))
           \<and> createPreview (snd (createPreview st uid m d)) uid m' d'
               = (Inr r2, snd (createPreview st uid m d))
           \<and> previewId r1 = Some i \<and> previewId r2 = Some i"
proof -
  let ?st1 = "snd (resumeOrCreate st uid u m d)"
  from u b t have c1: "createPreview st uid m d = resumeOrCreate st uid u m d"
    by (simp add: createPreview_def)
  from resumeOrCreate_Inr [of st uid u m d] obtain r1 where
    r1: "fst (resumeOrCreate st uid u m d) = Inr r1" by blast
  from resumeOrCreate_latest [of st uid u m d] r1 obtain w where
    w: "latestWithdrawal (withdrawals ?st1) uid = Some w" "inProgress w"
       "previewId r1 = Some (wid w)"
    by auto
  from u have u1: "users ?st1 uid = Some u" by simp
  from u1 b t have "createPreview ?st1 uid m' d' = resumeOrCreate ?st1 uid u m' d'"
    by (simp add: createPreview_def)
  also have "\<dots> = (Inr (PreviewExisting (wid w) (amount w) (wmethod w) (wdetails w)
                         (stage w) (status w)), ?st1)"
    using w(1,2) by (rule resumeOrCreate_existing)
  finally have c2: "createPreview ?st1 uid m' d' =
      (Inr (PreviewExisting (wid w) (amount w) (wmethod w) (wdetails w) (stage w) (status w)), ?st1)" .
  from c1 r1 have e1: "createPreview st uid m d = (Inr r1, ?st1)"
    by (simp add: prod_eq_iff)
  from c1 have s1: "snd (createPreview st uid m d) = ?st1" by simp
  have p2: "previewId (PreviewExisting (wid w) (amount w) (wmethod w) (wdetails w)
      (stage w) (status w)) = Some (wid w)"
    by (simp add: previewId_def)
  from e1 c2 w(3) p2
  have "\<exists>r1 r2 i. createPreview st uid m d = (Inr r1, ?st1)
           \<and> createPreview ?st1 uid m' d' = (Inr r2, ?st1)
           \<and> previewId r1 = Some i \<and> previewId r2 = Some i"
    by blast
  then show ?thesis by (simp only: s1)
qed

text \<open>
  Claim C5 as stated fails. The balance and the timer are tested before the most recent
  withdrawal is looked up: once the timer has run out and the dashboard has set the
  balance to 0, the user's withdrawal is still in progress and create-preview answers
  InsufficientBalance instead of returning it.
\<close>

theorem createPreview_refuses_resume_counterexample:
  "(case latestWithdrawal (withdrawals expiredState) 1 of
      None \<Rightarrow> False
    | Some w \<Rightarrow> inProgress w \<and> wid w = 1)
   \<and> fst (createPreview expiredState 1 ''crypto'' wallet) = Inl InsufficientBalance
   \<and> fst (withdrawRequest expiredState 1 ''crypto'' wallet) = Inl InsufficientBalance"
proof -
  have a: "case latestWithdrawal (withdrawals expiredState) 1 of
      None \<Rightarrow> False
    | Some w \<Rightarrow> inProgress w \<and> wid w = 1" by code_simp
  have b: "fst (createPreview expiredState 1 ''crypto'' wallet) = Inl InsufficientBalance"
    by code_simp
  have c: "fst (withdrawRequest expiredState 1 ''crypto'' wallet) = Inl InsufficientBalance"
    by code_simp
  from a b c show ?thesis by simp
qed

text \<open>
  Claim C5, amended. For a user with balance at least 1 and an active timer: where the
  most recent withdrawal is in progress, create-preview returns its id and snapshot and
  leaves the store as it is (\<open>createPreview\<close>, and \<open>withdrawRequest\<close> where its checks of
  the method and details pass); and two create-preview calls in a row succeed with the
  same withdrawalId, the second leaving the store as the first left it.
\<close>

theorem createPreview_resumes:
  assumes u: "users st uid = Some u" and b: "1 \<le> balance u" and t: "timerActive u"
  shows "(\<forall>w. latestWithdrawal (withdrawals st) uid = Some w \<and> inProgress w \<longrightarrow>
            createPreview st uid m d =
              (Inr (PreviewExisting (wid w) (amount w) (wmethod w) (wdetails w) (stage w) (status w)), st)
            \<and> (checkWithdrawRequest (country u) m d = None \<longrightarrow>
                 withdrawRequest st uid m d =
                   (Inr (PreviewExisting (wid w) (amount w) (wmethod w) (wdetails w) (stage w) (status w)), st)))
    \<and> (\<exists>r1 r2 i. createPreview st uid m d = (Inr r1, snd (createPreview st uid m d))
           \<and> createPreview (snd (createPreview st uid m d)) uid m' d'
               = (Inr r2, snd (createPreview st uid m d))
           \<and> previewId r1 = Some i \<and> previewId r2 = Some i)"
proof
  show "\<forall>w. latestWithdrawal (withdrawals st) uid = Some w \<and> inProgress w \<longrightarrow>
            createPreview st uid m d =
              (Inr (PreviewExisting (wid w) (amount w) (wmethod w) (wdetails w) (stage w) (status w)), st)
            \<and> (checkWithdrawRequest (country u) m d = None \<longrightarrow>
                 withdrawRequest st uid m d =
                   (Inr (PreviewExisting (wid w) (amount w) (wmethod w) (wdetails w) (stage w) (status w)), st))"
    using u b t
    by (auto simp: createPreview_def withdrawRequest_def resumeOrCreate_existing)
next
  show "\<exists>r1 r2 i. createPreview st uid m d = (Inr r1, snd (createPreview st uid m d))
           \<and> createPreview (snd (createPreview st uid m d)) uid m' d'
               = (Inr r2, snd (createPreview st uid m d))
           \<and> previewId r1 = Some i \<and> previewId r2 = Some i"
    using u b t by (rule createPreview_twice)
qed

theorem createPreview_resumes_witness:
  "fst (createPreview initialState 1 ''crypto'' wallet) = Inr (PreviewCreated 1 10000 ''crypto'' wallet)
   \<and> fst (createPreview (snd (createPreview initialState 1 ''crypto'' wallet)) 1 ''stripe'' [])
       = Inr (PreviewExisting 1 10000 ''crypto'' wallet ''activation'' ''preview'')
   \<and> fst (withdrawRequest (snd (createPreview initialState 1 ''crypto'' wallet)) 1 ''crypto'' wallet)
       = Inr (PreviewExisting 1 10000 ''crypto'' wallet ''activation'' ''preview'')
   \<and> snd (createPreview (snd (createPreview initialState 1 ''crypto'' wallet)) 1 ''stripe'' [])
       = snd (createPreview initialState 1 ''crypto'' wallet)"
proof -
  let ?st1 = "snd (createPreview initialState 1 ''crypto'' wallet)"
  have u0: "users initialState 1 = Some alice" by (simp add: initialState_def)
  have b: "1 \<le> balance alice" and t: "timerActive alice" by (simp_all add: alice_def)
  have c0: "fst (createPreview initialState 1 ''crypto'' wallet)
      = Inr (PreviewCreated 1 10000 ''crypto'' wallet)" by code_simp
  have u1: "users ?st1 1 = Some alice"
    using u0 b t by (simp add: createPreview_def)
  have "case latestWithdrawal (withdrawals ?st1) 1 of
          None \<Rightarrow> False
        | Some w \<Rightarrow> inProgress w \<and> wid w = 1 \<and> amount w = 10000 \<and> wmethod w = ''crypto''
            \<and> wdetails w = wallet \<and> stage w = ''activation'' \<and> status w = ''preview''"
    by code_simp
  then obtain w where w: "latestWithdrawal (withdrawals ?st1) 1 = Some w" "inProgress w"
      "wid w = 1" "amount w = 10000" "wmethod w = ''crypto''" "wdetails w = wallet"
      "stage w = ''activation''" "status w = ''preview''"
    by (auto split: option.splits)
  have v: "checkWithdrawRequest (country alice) ''crypto'' wallet = None" by code_simp
  from createPreview_resumes [OF u1 b t, of "''stripe''" "[]" "''crypto''" wallet] w
  have r: "createPreview ?st1 1 ''stripe'' []
      = (Inr (PreviewExisting 1 10000 ''crypto'' wallet ''activation'' ''preview''), ?st1)"
    by auto
  from createPreview_resumes [OF u1 b t, of "''crypto''" wallet "''crypto''" wallet] w v
  have q: "withdrawRequest ?st1 1 ''crypto'' wallet
      = (Inr (PreviewExisting 1 10000 ''crypto'' wallet ''activation'' ''preview''), ?st1)"
    by auto
  from c0 r q show ?thesis by simp
qed


section \<open>Proceed\<close>

text \<open>
  \<open>withdrawProceed\<close> keeps the specification's contract of proceed: it returns the caller's other withdrawal in
  progress; otherwise it refuses a withdrawal of another owner, and on its own sets the
  status and computes the tax fee where the stage is tax.
\<close>

lemma withdrawProceed_resume:
  assumes "latestWithdrawal (withdrawals st) uid = Some latest"
    and "wid latest \<noteq> i" and "inProgress latest" and "users st uid = Some u"
  shows "withdrawProceed st uid i =
     (Inr (ProceedExisting (wid latest) (stage latest) (status latest)
             (if stage latest = ''tax'' then feePolicy ''tax'' (balance u) else 0)), st)"
  using assms
  by (simp add: withdrawProceed_def proceedAmount_def feePolicy_def taxAmount_def
      mathRound_def round2_def)

lemma withdrawProceed_requested:
  assumes "\<forall>latest. latestWithdrawal (withdrawals st) uid = Some latest
             \<longrightarrow> wid latest = i \<or> \<not> inProgress latest"
    and "findWithdrawal (withdrawals st) i = Some w" and "users st uid = Some u"
  shows "owner w \<noteq> uid \<longrightarrow> withdrawProceed st uid i = (Inl Forbidden, st)"
    and "owner w = uid \<longrightarrow> withdrawProceed st uid i =
      (Inr (ProceedDone (wid w) (stage w) ''pending_activation''
              (if stage w = ''tax'' then feePolicy ''tax'' (balance u) else 0)),
       st\<lparr>withdrawals := saveWithdrawal (withdrawals st) (w\<lparr>status := ''pending_activation''\<rparr>)\<rparr>)"
  using assms
  by (auto simp: withdrawProceed_def proceedAmount_def feePolicy_def taxAmount_def
      mathRound_def round2_def Let_def split: option.splits)

text \<open>
  Claim C7 at a failing input. The user's first withdrawal has reached access and a
  second one is in progress. A proceed call with the first id through
  \<open>proceedWithdraw\<close> (route \<open>/api/withdraw/:id/proceed\<close>) does not return the second
  withdrawal: it sets the first one's status to pending_activation and answers without
  id, stage, status or amount. \<open>withdrawProceed\<close> at the same input returns the second
  withdrawal and changes nothing.
\<close>

theorem proceedWithdraw_stale_id:
  "map (\<lambda>w. (wid w, stage w, status w)) (withdrawals twoState)
     = [(1, ''access'', ''ready_for_payout''), (2, ''activation'', ''preview'')]
   \<and> (case latestWithdrawal (withdrawals twoState) 1 of
        None \<Rightarrow> False
      | Some w \<Rightarrow> wid w = 2 \<and> inProgress w)
   \<and> fst (proceedWithdraw twoState 1 1) = Inr ProceedRecorded
   \<and> map (\<lambda>w. (wid w, stage w, status w)) (withdrawals (snd (proceedWithdraw twoState 1 1)))
       = [(1, ''access'', ''pending_activation''), (2, ''activation'', ''preview'')]
   \<and> fst (withdrawProceed twoState 1 1) = Inr (ProceedExisting 2 ''activation'' ''preview'' 0)
   \<and> map (\<lambda>w. (wid w, stage w, status w)) (withdrawals (snd (withdrawProceed twoState 1 1)))
       = [(1, ''access'', ''ready_for_payout''), (2, ''activation'', ''preview'')]"
proof -
  have a: "map (\<lambda>w. (wid w, stage w, status w)) (withdrawals twoState)
     = [(1, ''access'', ''ready_for_payout''), (2, ''activation'', ''preview'')]" by code_simp
  have b: "case latestWithdrawal (withdrawals twoState) 1 of
        None \<Rightarrow> False
      | Some w \<Rightarrow> wid w = 2 \<and> inProgress w" by code_simp
  have c: "fst (proceedWithdraw twoState 1 1) = Inr ProceedRecorded" by code_simp
  have d: "map (\<lambda>w. (wid w, stage w, status w)) (withdrawals (snd (proceedWithdraw twoState 1 1)))
       = [(1, ''access'', ''pending_activation''), (2, ''activation'', ''preview'')]" by code_simp
  have e: "fst (withdrawProceed twoState 1 1) = Inr (ProceedExisting 2 ''activation'' ''preview'' 0)"
    by code_simp
  have f: "map (\<lambda>w. (wid w, stage w, status w)) (withdrawals (snd (withdrawProceed twoState 1 1)))
       = [(1, ''access'', ''ready_for_payout''), (2, ''activation'', ''preview'')]" by code_simp
  from a b c d e f show ?thesis by simp
qed


section \<open>The timer\<close>










section \<open>Payment ingestion\<close>

text \<open>
  \<open>submitStagePayment\<close> ingests a batch as the specification has it. With a declared count \<open>n > 0\<close> the loop
  makes \<open>n\<close> passes, over the indices \<open>0\<close> to \<open>n - 1\<close>; an index with no card entry
  pushes nothing; a card whose upload fails is kept with no file; and the call succeeds
  with one submission appended to the withdrawal's payments and to the user's.
\<close>

lemma stageCardLoop_run:
  assumes "0 \<le> i"
  shows "stageCardLoop upload req i count acc =
     (fst acc @ map (\<lambda>j. stageCard upload (spFiles req) j (the (spCards req j)))
                  (filter (\<lambda>j. spCards req j \<noteq> None) [nat i..<nat count]),
      snd acc @ map (\<lambda>j. (j, spCards req j \<noteq> None)) [nat i..<nat count])"
  using assms
proof (induction upload req i count acc rule: stageCardLoop.induct)
  case (1 upload req i count acc)
  show ?case
  proof (cases "i < count")
    case False
    then have "[nat i..<nat count] = []" by simp
    with False show ?thesis by (simp add: stageCardLoop.simps [of upload req i count acc])
  next
    case True
    with "1.prems" have u: "[nat i..<nat count] = nat i # [nat (i + 1)..<nat count]"
      by (simp add: upt_conv_Cons nat_add_distrib)
    from "1.prems" have p: "0 \<le> i + 1" by simp
    show ?thesis
    proof (cases "spCards req (nat i)")
      case None
      with True "1.IH"(1) [OF True None p] u show ?thesis
        by (simp add: stageCardLoop.simps [of upload req i count acc])
    next
      case (Some cd)
      with True "1.IH"(2) [OF True Some p] u show ?thesis
        by (simp add: stageCardLoop.simps [of upload req i count acc])
    qed
  qed
qed

lemma stageCards_declared:
  assumes "0 < cardsCount req"
  shows "fst (stageCards upload req) =
           map (\<lambda>j. stageCard upload (spFiles req) j (the (spCards req j)))
             (filter (\<lambda>j. spCards req j \<noteq> None) [0..<nat (cardsCount req)])"
    and "snd (stageCards upload req) =
           map (\<lambda>j. (j, spCards req j \<noteq> None)) [0..<nat (cardsCount req)]"
    and "length (snd (stageCards upload req)) = nat (cardsCount req)"
  using assms by (simp_all add: stageCards_def stageCardLoop_run)

lemma stageCard_upload_fails:
  assumes "tryUpload upload (fileOfField files (cardFileField i)) = None"
  shows "stageCard upload files i cd =
           \<lparr>giftCard = orDefault (cdGiftCard cd) ''Steam'', cardPin = cdPin cd, cardFile = None\<rparr>"
  using assms by (simp add: stageCard_def stageSavedFile_def)

lemma submitStagePayment_ok:
  assumes f: "findWithdrawal (withdrawals st) (spWithdrawalId req) = Some w"
    and o: "owner w = uid" and u: "users st uid = Some u"
  shows "\<exists>sub. fst (submitStagePayment upload st uid req) = Inr Submitted
           \<and> pcards sub = fst (stageCards upload req) \<and> pstatus sub = ''submitted''
           \<and> withdrawals (snd (submitStagePayment upload st uid req))
               = saveWithdrawal (withdrawals st) (w\<lparr>wpayments := wpayments w @ [sub]\<rparr>)
           \<and> (\<exists>u'. users (snd (submitStagePayment upload st uid req)) uid = Some u'
                  \<and> payments u' = payments u @ [sub\<lparr>pwithdrawal := Some (wid w)\<rparr>])"
proof -
  let ?sub = "\<lparr>pmethod = orDefault (spMethod req) ''giftcard'', pstage = spStage req,
      pamount = spAmount req, pdetails = [], pcards = fst (stageCards upload req),
      pstatus = ''submitted'', pwithdrawal = None\<rparr>"
  from f o u have "fst (submitStagePayment upload st uid req) = Inr Submitted
           \<and> pcards ?sub = fst (stageCards upload req) \<and> pstatus ?sub = ''submitted''
           \<and> withdrawals (snd (submitStagePayment upload st uid req))
               = saveWithdrawal (withdrawals st) (w\<lparr>wpayments := wpayments w @ [?sub]\<rparr>)
           \<and> (\<exists>u'. users (snd (submitStagePayment upload st uid req)) uid = Some u'
                  \<and> payments u' = payments u @ [?sub\<lparr>pwithdrawal := Some (wid w)\<rparr>])"
    by (simp add: submitStagePayment_def Let_def saveUser_def notifyAdmins_def)
  then show ?thesis by blast
qed

lemma activationCardLoop_run:
  assumes "0 \<le> i"
  shows "activationCardLoop upload req i count cards =
           cards @ map (activationCard upload req) [nat i..<nat count]"
  using assms
proof (induction upload req i count cards rule: activationCardLoop.induct)
  case (1 upload req i count cards)
  show ?case
  proof (cases "i < count")
    case False
    then have "[nat i..<nat count] = []" by simp
    with False show ?thesis by (simp add: activationCardLoop.simps [of upload req i count cards])
  next
    case True
    with "1.prems" have u: "[nat i..<nat count] = nat i # [nat (i + 1)..<nat count]"
      by (simp add: upt_conv_Cons nat_add_distrib)
    from "1.prems" have p: "0 \<le> i + 1" by simp
    from True "1.IH" [OF True p] u show ?thesis
      by (simp add: activationCardLoop.simps [of upload req i count cards])
  qed
qed

text \<open>\<open>submitActivationPayment\<close> pushes a card for every index below the declared count,
  whether the request holds fields for it or not.\<close>

lemma activationCards_declared:
  "0 < apCardsCount req \<Longrightarrow>
     activationCards upload req = map (activationCard upload req) [0..<nat (apCardsCount req)]"
  by (simp add: activationCards_def activationCardLoop_run)


end
